theory Spec2Isabelle
  imports Main "HOL-Library.Word" "HOL-Library.Monad_Syntax"
begin

unbundle bit_operations_syntax

section \<open>VGA text mode terminal (kernel/kernel.c)\<close>

text \<open>
  The target is x86_64: \<open>size_t\<close> and \<open>uint64_t\<close> are \<open>64 word\<close>, \<open>uint32_t\<close> is
  \<open>32 word\<close>, \<open>uint16_t\<close> is \<open>16 word\<close>, \<open>uint8_t\<close> and \<open>char\<close> are \<open>8 word\<close>.
\<close>

type_synonym size_t = "64 word"
type_synonym uint64_t = "64 word"
type_synonym uint32_t = "32 word"
type_synonym uint16_t = "16 word"
type_synonym uint8_t = "8 word"

definition VGA_WIDTH :: size_t where
  "VGA_WIDTH = 80"

definition VGA_HEIGHT :: size_t where
  "VGA_HEIGHT = 25"

datatype vga_color =
    VGA_BLACK | VGA_BLUE | VGA_GREEN | VGA_CYAN
  | VGA_RED | VGA_MAGENTA | VGA_BROWN | VGA_LIGHT_GREY
  | VGA_DARK_GREY | VGA_LIGHT_BLUE | VGA_LIGHT_GREEN | VGA_LIGHT_CYAN
  | VGA_LIGHT_RED | VGA_LIGHT_MAGENTA | VGA_YELLOW | VGA_WHITE

text \<open>The enumerators' values, as the \<open>enum\<close> of the source gives them.\<close>

fun vga_color_value :: "vga_color \<Rightarrow> uint8_t" where
  "vga_color_value VGA_BLACK = 0"
| "vga_color_value VGA_BLUE = 1"
| "vga_color_value VGA_GREEN = 2"
| "vga_color_value VGA_CYAN = 3"
| "vga_color_value VGA_RED = 4"
| "vga_color_value VGA_MAGENTA = 5"
| "vga_color_value VGA_BROWN = 6"
| "vga_color_value VGA_LIGHT_GREY = 7"
| "vga_color_value VGA_DARK_GREY = 8"
| "vga_color_value VGA_LIGHT_BLUE = 9"
| "vga_color_value VGA_LIGHT_GREEN = 10"
| "vga_color_value VGA_LIGHT_CYAN = 11"
| "vga_color_value VGA_LIGHT_RED = 12"
| "vga_color_value VGA_LIGHT_MAGENTA = 13"
| "vga_color_value VGA_YELLOW = 14"
| "vga_color_value VGA_WHITE = 15"

text \<open>\<open>fg | bg << 4\<close>, returned as \<open>uint8_t\<close>.\<close>

definition vga_entry_color :: "vga_color \<Rightarrow> vga_color \<Rightarrow> uint8_t" where
  "vga_entry_color fg bg = vga_color_value fg OR push_bit 4 (vga_color_value bg)"

text \<open>\<open>(uint16_t)c | (uint16_t)color << 8\<close>.\<close>

definition vga_entry :: "uint8_t \<Rightarrow> uint8_t \<Rightarrow> uint16_t" where
  "vga_entry c color = ucast c OR push_bit 8 (ucast color)"

text \<open>
  The four globals of the terminal. \<open>terminal_buffer\<close> is a pointer that
  \<open>terminal_initialize\<close> fixes at \<open>VGA_MEMORY\<close>; the field holds the 16-bit cells
  addressed through it, cell \<open>i\<close> being \<open>terminal_buffer[i]\<close>. No cell is bounded by
  the code, so the cells are a total function of the index and a store outside the
  80 x 25 grid is a store to the cell of that index.
\<close>

record terminal =
  terminal_row :: size_t
  terminal_column :: size_t
  terminal_color :: uint8_t
  terminal_buffer :: "nat \<Rightarrow> uint16_t"

text \<open>The inner and outer loop of the screen clearing; the counters stay below 80 and 25.\<close>

function terminal_initialize_x ::
  "uint8_t \<Rightarrow> nat \<Rightarrow> nat \<Rightarrow> (nat \<Rightarrow> uint16_t) \<Rightarrow> (nat \<Rightarrow> uint16_t)" where
  "terminal_initialize_x color y x b =
     (if x < unat VGA_WIDTH
      then terminal_initialize_x color y (x + 1)
             (b(y * unat VGA_WIDTH + x := vga_entry 32 color))
      else b)"
  by pat_completeness auto
termination
  by (relation "measure (\<lambda>(color, y, x, b). unat VGA_WIDTH - x)") auto

function terminal_initialize_y ::
  "uint8_t \<Rightarrow> nat \<Rightarrow> (nat \<Rightarrow> uint16_t) \<Rightarrow> (nat \<Rightarrow> uint16_t)" where
  "terminal_initialize_y color y b =
     (if y < unat VGA_HEIGHT
      then terminal_initialize_y color (y + 1) (terminal_initialize_x color y 0 b)
      else b)"
  by pat_completeness auto
termination
  by (relation "measure (\<lambda>(color, y, b). unat VGA_HEIGHT - y)") auto

definition terminal_initialize :: "terminal \<Rightarrow> terminal" where
  "terminal_initialize s =
     (let color = vga_entry_color VGA_LIGHT_GREY VGA_BLACK in
      s\<lparr>terminal_row := 0, terminal_column := 0, terminal_color := color,
        terminal_buffer := terminal_initialize_y color 0 (terminal_buffer s)\<rparr>)"

definition terminal_setcolor :: "uint8_t \<Rightarrow> terminal \<Rightarrow> terminal" where
  "terminal_setcolor color s = s\<lparr>terminal_color := color\<rparr>"

text \<open>\<open>index = y * VGA_WIDTH + x\<close> is computed in \<open>size_t\<close>.\<close>

definition terminal_putentryat ::
  "uint8_t \<Rightarrow> uint8_t \<Rightarrow> size_t \<Rightarrow> size_t \<Rightarrow> terminal \<Rightarrow> terminal" where
  "terminal_putentryat c color x y s =
     s\<lparr>terminal_buffer := (terminal_buffer s)(unat (y * VGA_WIDTH + x) := vga_entry c color)\<rparr>"

text \<open>The copy loops of \<open>terminal_scroll\<close>, in place and in the order of the source.\<close>

function terminal_scroll_x :: "nat \<Rightarrow> nat \<Rightarrow> (nat \<Rightarrow> uint16_t) \<Rightarrow> (nat \<Rightarrow> uint16_t)" where
  "terminal_scroll_x y x b =
     (if x < unat VGA_WIDTH
      then terminal_scroll_x y (x + 1)
             (b(y * unat VGA_WIDTH + x := b ((y + 1) * unat VGA_WIDTH + x)))
      else b)"
  by pat_completeness auto
termination
  by (relation "measure (\<lambda>(y, x, b). unat VGA_WIDTH - x)") auto

function terminal_scroll_y :: "nat \<Rightarrow> (nat \<Rightarrow> uint16_t) \<Rightarrow> (nat \<Rightarrow> uint16_t)" where
  "terminal_scroll_y y b =
     (if y < unat VGA_HEIGHT - 1
      then terminal_scroll_y (y + 1) (terminal_scroll_x y 0 b)
      else b)"
  by pat_completeness auto
termination
  by (relation "measure (\<lambda>(y, b). unat VGA_HEIGHT - 1 - y)") auto

text \<open>The loop that blanks the last row.\<close>

function terminal_scroll_clear ::
  "uint8_t \<Rightarrow> nat \<Rightarrow> (nat \<Rightarrow> uint16_t) \<Rightarrow> (nat \<Rightarrow> uint16_t)" where
  "terminal_scroll_clear color x b =
     (if x < unat VGA_WIDTH
      then terminal_scroll_clear color (x + 1)
             (b((unat VGA_HEIGHT - 1) * unat VGA_WIDTH + x := vga_entry 32 color))
      else b)"
  by pat_completeness auto
termination
  by (relation "measure (\<lambda>(color, x, b). unat VGA_WIDTH - x)") auto

definition terminal_scroll :: "terminal \<Rightarrow> terminal" where
  "terminal_scroll s =
     s\<lparr>terminal_buffer :=
         terminal_scroll_clear (terminal_color s) 0 (terminal_scroll_y 0 (terminal_buffer s))\<rparr>"

text \<open>
  \<open>terminal_putchar\<close>: newline is 10, tab is 9; \<open>~3\<close> is the \<open>int\<close> -4, converted to
  \<open>size_t\<close> for the conjunction, that is \<open>NOT 3\<close>; \<open>++\<close> wraps in \<open>size_t\<close>.
\<close>

definition terminal_putchar :: "uint8_t \<Rightarrow> terminal \<Rightarrow> terminal" where
  "terminal_putchar c s =
     (if c = 10 then
        (let s1 = s\<lparr>terminal_column := 0\<rparr>;
             s2 = s1\<lparr>terminal_row := terminal_row s1 + 1\<rparr>
         in if terminal_row s2 = VGA_HEIGHT
            then terminal_scroll (s2\<lparr>terminal_row := VGA_HEIGHT - 1\<rparr>)
            else s2)
      else if c = 9 then
        (let s1 = s\<lparr>terminal_column := (terminal_column s + 4) AND NOT 3\<rparr>
         in if terminal_column s1 \<ge> VGA_WIDTH
            then (let s2 = s1\<lparr>terminal_column := 0\<rparr>;
                      s3 = s2\<lparr>terminal_row := terminal_row s2 + 1\<rparr>
                  in if terminal_row s3 = VGA_HEIGHT
                     then terminal_scroll (s3\<lparr>terminal_row := VGA_HEIGHT - 1\<rparr>)
                     else s3)
            else s1)
      else
        (let s1 = terminal_putentryat c (terminal_color s) (terminal_column s) (terminal_row s) s;
             s2 = s1\<lparr>terminal_column := terminal_column s1 + 1\<rparr>
         in if terminal_column s2 = VGA_WIDTH
            then (let s3 = s2\<lparr>terminal_column := 0\<rparr>;
                      s4 = s3\<lparr>terminal_row := terminal_row s3 + 1\<rparr>
                  in if terminal_row s4 = VGA_HEIGHT
                     then terminal_scroll (s4\<lparr>terminal_row := VGA_HEIGHT - 1\<rparr>)
                     else s4)
            else s2))"

text \<open>
  A \<open>const char*\<close> is read through indexing only: \<open>data i\<close> is \<open>data[i]\<close>, with the
  index a \<open>size_t\<close>.
\<close>

type_synonym cdata = "size_t \<Rightarrow> uint8_t"

function terminal_write_loop :: "cdata \<Rightarrow> size_t \<Rightarrow> size_t \<Rightarrow> terminal \<Rightarrow> terminal" where
  "terminal_write_loop data sz i s =
     (if i < sz
      then terminal_write_loop data sz (i + 1) (terminal_putchar (data i) s)
      else s)"
  by pat_completeness auto
termination
proof (relation "measure (\<lambda>(data, sz, i, s). unat sz - unat i)")
  fix data :: cdata and sz i :: size_t and s :: terminal
  assume "i < sz"
  then have lt: "unat i < unat sz"
    by (simp add: word_less_nat_alt)
  have "unat sz < 2 ^ 64"
    using unsigned_less [of sz, where 'a = nat] by simp
  with lt have "unat (i + 1) = unat i + 1"
    by (simp add: unat_word_ariths)
  with lt show "((data, sz, i + 1, terminal_putchar (data i) s), (data, sz, i, s))
      \<in> measure (\<lambda>(data, sz, i, s). unat sz - unat i)"
    by simp
qed simp

definition terminal_write :: "cdata \<Rightarrow> size_t \<Rightarrow> terminal \<Rightarrow> terminal" where
  "terminal_write data sz s = terminal_write_loop data sz 0 s"

text \<open>
  The length loop of \<open>terminal_writestring\<close> runs until it reads a zero byte; on data
  with no zero byte it never ends, which is the value \<open>None\<close>.
\<close>

partial_function (option) terminal_writestring_len :: "cdata \<Rightarrow> size_t \<Rightarrow> size_t option" where
  "terminal_writestring_len data len =
     (if data len \<noteq> 0 then terminal_writestring_len data (len + 1) else Some len)"

definition terminal_writestring :: "cdata \<Rightarrow> terminal \<Rightarrow> terminal option" where
  "terminal_writestring data s =
     (case terminal_writestring_len data 0 of
        None \<Rightarrow> None
      | Some len \<Rightarrow> Some (terminal_write data len s))"

text \<open>
  A string literal as \<open>const char*\<close>: its characters, then the terminating zero byte.
  The literals of the source hold no zero byte, so nothing behind the terminator is
  ever read; it is given as zero.
\<close>

definition string_literal :: "string \<Rightarrow> cdata" where
  "string_literal cs i = (if unat i < length cs then of_char (cs ! unat i) else 0)"

section \<open>Multiboot2 structures\<close>

text \<open>
  The information block lies in memory the bootloader owns: bytes at 64-bit addresses.
  It is taken to be disjoint from the cells behind \<open>terminal_buffer\<close>, so terminal
  output does not change it. The fields of the packed structs are read in the
  little-endian byte order of x86_64: \<open>type\<close> at offset 0, \<open>size\<close> at offset 4,
  \<open>string\<close> from offset 8.
\<close>

type_synonym memory = "uint64_t \<Rightarrow> uint8_t"

definition read_uint32 :: "memory \<Rightarrow> uint64_t \<Rightarrow> uint32_t" where
  "read_uint32 m a =
     ucast (m a) OR push_bit 8 (ucast (m (a + 1)))
       OR push_bit 16 (ucast (m (a + 2))) OR push_bit 24 (ucast (m (a + 3)))"

definition tag_type :: "memory \<Rightarrow> uint64_t \<Rightarrow> uint32_t" where
  "tag_type m tag = read_uint32 m tag"

definition tag_size :: "memory \<Rightarrow> uint64_t \<Rightarrow> uint32_t" where
  "tag_size m tag = read_uint32 m (tag + 4)"

definition tag_string :: "memory \<Rightarrow> uint64_t \<Rightarrow> cdata" where
  "tag_string m tag i = m (tag + 8 + i)"

section \<open>Parsing the Multiboot information\<close>

text \<open>The \<open>switch\<close> of the loop body. Cases 1 and 2 write the tag's string with
  \<open>terminal_writestring\<close>; case 4 casts the tag and reads none of its fields.\<close>

definition parse_multiboot_switch :: "memory \<Rightarrow> uint64_t \<Rightarrow> terminal \<Rightarrow> terminal option" where
  "parse_multiboot_switch m tag s =
     (if tag_type m tag = 1 then
        do {
          s1 \<leftarrow> terminal_writestring (string_literal ''  Command line: '') s;
          s2 \<leftarrow> terminal_writestring (tag_string m tag) s1;
          terminal_writestring (string_literal ''\<newline>'') s2
        }
      else if tag_type m tag = 2 then
        do {
          s1 \<leftarrow> terminal_writestring (string_literal ''  Bootloader: '') s;
          s2 \<leftarrow> terminal_writestring (tag_string m tag) s1;
          terminal_writestring (string_literal ''\<newline>'') s2
        }
      else if tag_type m tag = 4 then
        terminal_writestring (string_literal ''  Memory detected\<newline>'') s
      else Some s)"

text \<open>
  The step to the next tag: \<open>(tag->size + 7) & ~7\<close> is computed in \<open>uint32_t\<close>
  (\<open>~7\<close> is the \<open>int\<close> -8, converted), then added to the byte pointer.
\<close>

definition next_tag :: "memory \<Rightarrow> uint64_t \<Rightarrow> uint64_t" where
  "next_tag m tag = tag + ucast ((tag_size m tag + 7) AND NOT 7)"

text \<open>The \<open>for\<close> loop over the tags. It ends at a tag of type 0 and nowhere else; a run
  that never ends has the value \<open>None\<close>.\<close>

partial_function (option) parse_multiboot_loop ::
  "memory \<Rightarrow> uint64_t \<Rightarrow> terminal \<Rightarrow> terminal option" where
  "parse_multiboot_loop m tag s =
     (if tag_type m tag \<noteq> 0
      then do {
             s' \<leftarrow> parse_multiboot_switch m tag s;
             parse_multiboot_loop m (next_tag m tag) s'
           }
      else Some s)"

definition parse_multiboot_info :: "memory \<Rightarrow> uint64_t \<Rightarrow> terminal \<Rightarrow> terminal option" where
  "parse_multiboot_info m multiboot_addr s =
     do {
       s1 \<leftarrow> terminal_writestring (string_literal ''Multiboot information at: 0x'') s;
       s2 \<leftarrow> terminal_writestring (string_literal ''\<newline>'') s1;
       parse_multiboot_loop m (multiboot_addr + 8) s2
     }"

section \<open>The kernel's entry point\<close>

text \<open>
  \<open>kernel_main\<close> never returns: both paths end in the \<open>hlt\<close> loop behind the label
  \<open>halt\<close>. The model returns the terminal as it is when control reaches that label,
  and \<open>None\<close> when it never does. The first argument is the terminal before the call.
\<close>

definition kernel_main :: "memory \<Rightarrow> terminal \<Rightarrow> uint64_t \<Rightarrow> uint64_t \<Rightarrow> terminal option" where
  "kernel_main m s0 magic multiboot_addr =
     do {
       let s = terminal_initialize s0;
       let s = terminal_setcolor (vga_entry_color VGA_LIGHT_CYAN VGA_BLACK) s;
       s \<leftarrow> terminal_writestring (string_literal ''=================================\<newline>'') s;
       s \<leftarrow> terminal_writestring (string_literal ''    MixOS Kernel v0.1.0\<newline>'') s;
       s \<leftarrow> terminal_writestring (string_literal ''=================================\<newline>\<newline>'') s;
       let s = terminal_setcolor (vga_entry_color VGA_LIGHT_GREY VGA_BLACK) s;
       if magic \<noteq> 0x36d76289 then
         do {
           let s = terminal_setcolor (vga_entry_color VGA_LIGHT_RED VGA_BLACK) s;
           s \<leftarrow> terminal_writestring (string_literal ''[ERROR] Invalid Multiboot magic number!\<newline>'') s;
           terminal_writestring (string_literal ''System halted.\<newline>'') s
         }
       else
         do {
           let s = terminal_setcolor (vga_entry_color VGA_LIGHT_GREEN VGA_BLACK) s;
           s \<leftarrow> terminal_writestring (string_literal ''[OK] Multiboot2 boot detected\<newline>'') s;
           let s = terminal_setcolor (vga_entry_color VGA_LIGHT_GREY VGA_BLACK) s;
           s \<leftarrow> terminal_writestring (string_literal ''\<newline>[INFO] Parsing multiboot information...\<newline>'') s;
           s \<leftarrow> parse_multiboot_info m multiboot_addr s;
           s \<leftarrow> terminal_writestring (string_literal ''\<newline>[INFO] Initializing architecture (x86_64)...\<newline>'') s;
           s \<leftarrow> terminal_writestring (string_literal ''[INFO] Initializing memory management...\<newline>'') s;
           s \<leftarrow> terminal_writestring (string_literal ''[INFO] Initializing scheduler...\<newline>'') s;
           s \<leftarrow> terminal_writestring (string_literal ''[INFO] Initializing drivers...\<newline>'') s;
           s \<leftarrow> terminal_writestring (string_literal ''[INFO] Initializing filesystem...\<newline>'') s;
           s \<leftarrow> terminal_writestring (string_literal ''\<newline>'') s;
           let s = terminal_setcolor (vga_entry_color VGA_YELLOW VGA_BLACK) s;
           s \<leftarrow> terminal_writestring (string_literal ''[READY] Kernel initialization complete!\<newline>'') s;
           let s = terminal_setcolor (vga_entry_color VGA_LIGHT_GREY VGA_BLACK) s;
           s \<leftarrow> terminal_writestring (string_literal ''\<newline>MixOS is now running in kernel mode.\<newline>'') s;
           terminal_writestring (string_literal ''Next step: implement userspace and system calls.\<newline>'') s
         }
     }"

section \<open>What is on the screen at the halt\<close>

text \<open>
  The straight-line stretches of \<open>kernel_main\<close>, as the characters put on the terminal
  and the colours set: the banner, the two messages of the failure path, the messages
  before the parser is called, and the messages after it.
\<close>

definition boot_banner :: "terminal \<Rightarrow> terminal" where
  "boot_banner s0 =
     terminal_setcolor (vga_entry_color VGA_LIGHT_GREY VGA_BLACK)
       (fold terminal_putchar (map of_char
          ''=================================\<newline>    MixOS Kernel v0.1.0\<newline>=================================\<newline>\<newline>'')
          (terminal_setcolor (vga_entry_color VGA_LIGHT_CYAN VGA_BLACK) (terminal_initialize s0)))"

definition fatal_halt_screen :: "terminal \<Rightarrow> terminal" where
  "fatal_halt_screen s0 =
     fold terminal_putchar (map of_char
        ''[ERROR] Invalid Multiboot magic number!\<newline>System halted.\<newline>'')
        (terminal_setcolor (vga_entry_color VGA_LIGHT_RED VGA_BLACK) (boot_banner s0))"

definition parsing_screen :: "terminal \<Rightarrow> terminal" where
  "parsing_screen s0 =
     fold terminal_putchar (map of_char ''\<newline>[INFO] Parsing multiboot information...\<newline>'')
       (terminal_setcolor (vga_entry_color VGA_LIGHT_GREY VGA_BLACK)
          (fold terminal_putchar (map of_char ''[OK] Multiboot2 boot detected\<newline>'')
             (terminal_setcolor (vga_entry_color VGA_LIGHT_GREEN VGA_BLACK) (boot_banner s0))))"

definition ready_screen :: "terminal \<Rightarrow> terminal" where
  "ready_screen s =
     fold terminal_putchar (map of_char
        ''\<newline>MixOS is now running in kernel mode.\<newline>Next step: implement userspace and system calls.\<newline>'')
       (terminal_setcolor (vga_entry_color VGA_LIGHT_GREY VGA_BLACK)
          (fold terminal_putchar (map of_char ''[READY] Kernel initialization complete!\<newline>'')
             (terminal_setcolor (vga_entry_color VGA_YELLOW VGA_BLACK)
                (fold terminal_putchar (map of_char
                   ''\<newline>[INFO] Initializing architecture (x86_64)...\<newline>[INFO] Initializing memory management...\<newline>[INFO] Initializing scheduler...\<newline>[INFO] Initializing drivers...\<newline>[INFO] Initializing filesystem...\<newline>\<newline>'')
                   s))))"

section \<open>The bytes the parser writes\<close>

text \<open>
  What the parser puts on the terminal, as bytes. \<open>tag_output\<close> is the line for one tag:
  for type 1 and type 2 the label, the bytes of the tag's string before its first zero
  byte (their number is what the length loop of \<open>terminal_writestring\<close> returns) and a
  newline; for type 4 the line \<open>Memory detected\<close>; for every other type nothing. It is
  \<open>None\<close> when the string has no zero byte. \<open>walk_output m tag n\<close> is the lines for
  the \<open>n\<close> tags from \<open>tag\<close> on, in order.
\<close>

definition tag_output :: "memory \<Rightarrow> uint64_t \<Rightarrow> uint8_t list option" where
  "tag_output m tag =
     (if tag_type m tag = 1 then
        map_option
          (\<lambda>len. map of_char ''  Command line: ''
             @ map (\<lambda>k. tag_string m tag (of_nat k)) [0..<unat len] @ [10])
          (terminal_writestring_len (tag_string m tag) 0)
      else if tag_type m tag = 2 then
        map_option
          (\<lambda>len. map of_char ''  Bootloader: ''
             @ map (\<lambda>k. tag_string m tag (of_nat k)) [0..<unat len] @ [10])
          (terminal_writestring_len (tag_string m tag) 0)
      else if tag_type m tag = 4 then Some (map of_char ''  Memory detected\<newline>'')
      else Some [])"

fun walk_output :: "memory \<Rightarrow> uint64_t \<Rightarrow> nat \<Rightarrow> uint8_t list option" where
  "walk_output m tag 0 = Some []"
| "walk_output m tag (Suc n) =
     do {
       bs \<leftarrow> tag_output m tag;
       rest \<leftarrow> walk_output m (next_tag m tag) n;
       Some (bs @ rest)
     }"

section \<open>The cursor bounds\<close>

text \<open>The cursor is inside the grid: \<open>terminal_row < VGA_HEIGHT\<close> and
  \<open>terminal_column < VGA_WIDTH\<close> (both unsigned, so never negative).\<close>

definition cursor_in_bounds :: "terminal \<Rightarrow> bool" where
  "cursor_in_bounds s \<longleftrightarrow> terminal_row s < VGA_HEIGHT \<and> terminal_column s < VGA_WIDTH"

section \<open>Information blocks to run the parser on\<close>

text \<open>
  \<open>memory_of base bs\<close> is a memory that holds the bytes \<open>bs\<close> from address \<open>base\<close> on
  and zero everywhere else. Blocks are built from their tags: a 32-bit field in
  little-endian order, a string tag with its terminator and its padding to 8 bytes, the
  basic memory information tag, the end tag.
\<close>

definition memory_of :: "uint64_t \<Rightarrow> uint8_t list \<Rightarrow> memory" where
  "memory_of base bs a = (if unat (a - base) < length bs then bs ! unat (a - base) else 0)"

definition uint32_bytes :: "uint32_t \<Rightarrow> uint8_t list" where
  "uint32_bytes w = [ucast w, ucast (drop_bit 8 w), ucast (drop_bit 16 w), ucast (drop_bit 24 w)]"

definition string_tag :: "uint32_t \<Rightarrow> string \<Rightarrow> uint8_t list" where
  "string_tag ty cs =
     uint32_bytes ty @ uint32_bytes (of_nat (8 + length cs + 1)) @ map of_char cs @ [0]
       @ replicate ((8 - (length cs + 1) mod 8) mod 8) 0"

definition meminfo_tag :: "uint32_t \<Rightarrow> uint32_t \<Rightarrow> uint8_t list" where
  "meminfo_tag mem_lower mem_upper =
     uint32_bytes 4 @ uint32_bytes 16 @ uint32_bytes mem_lower @ uint32_bytes mem_upper"

definition end_tag :: "uint8_t list" where
  "end_tag = uint32_bytes 0 @ uint32_bytes 8"

definition boot_block :: "uint32_t \<Rightarrow> uint32_t \<Rightarrow> uint8_t list" where
  "boot_block mem_lower mem_upper =
     uint32_bytes 80 @ uint32_bytes 0
       @ string_tag 1 ''root=/dev/sda1''
       @ string_tag 2 ''GRUB 2.06''
       @ meminfo_tag mem_lower mem_upper
       @ end_tag"

text \<open>
  A terminal to start from, and four short blocks: a command-line tag of size 9 whose one
  payload byte \<open>A\<close> is followed by seven padding bytes \<open>B\<close> and no terminator before the
  end tag; a command-line tag whose size field is 7, followed by the bytes \<open>hi\<close>; a tag of
  type 5 and size 0 with no end tag; and a block with the end tag only.
\<close>

definition test_terminal :: terminal where
  "test_terminal = \<lparr>terminal_row = 0, terminal_column = 0, terminal_color = 7,
     terminal_buffer = (\<lambda>i. 0)\<rparr>"

definition unterminated_block :: "uint8_t list" where
  "unterminated_block =
     uint32_bytes 32 @ uint32_bytes 0
       @ (uint32_bytes 1 @ uint32_bytes 9 @ [65] @ replicate 7 66)
       @ end_tag"

definition short_size_block :: "uint8_t list" where
  "short_size_block =
     uint32_bytes 32 @ uint32_bytes 0
       @ (uint32_bytes 1 @ uint32_bytes 7)
       @ ([104, 105, 0, 0] @ uint32_bytes 8)
       @ end_tag"

definition endless_block :: "uint8_t list" where
  "endless_block = uint32_bytes 16 @ uint32_bytes 0 @ (uint32_bytes 5 @ uint32_bytes 0)"

definition empty_block :: "uint8_t list" where
  "empty_block = uint32_bytes 16 @ uint32_bytes 0 @ end_tag"

section \<open>Properties\<close>

subsection \<open>The loops of the terminal\<close>

declare terminal_scroll_x.simps [simp del] terminal_scroll_y.simps [simp del]
  terminal_scroll_clear.simps [simp del] terminal_initialize_x.simps [simp del]
  terminal_initialize_y.simps [simp del] terminal_write_loop.simps [simp del]

lemma unat_VGA [simp]: "unat VGA_WIDTH = 80" "unat VGA_HEIGHT = 25"
  by (simp_all add: VGA_WIDTH_def VGA_HEIGHT_def)

lemma terminal_scroll_x_cell:
  "x \<le> 80 \<Longrightarrow> terminal_scroll_x y x b i =
     (if y * 80 + x \<le> i \<and> i < y * 80 + 80 then b (i + 80) else b i)"
proof (induction "80 - x" arbitrary: x b)
  case 0
  then have "x = 80" by simp
  then show ?case
    by (subst terminal_scroll_x.simps) auto
next
  case (Suc n)
  let ?b = "b(y * 80 + x := b ((y + 1) * 80 + x))"
  from Suc.hyps(2) have lt: "x < 80" by simp
  then have step: "terminal_scroll_x y x b = terminal_scroll_x y (x + 1) ?b"
    by (subst terminal_scroll_x.simps) simp
  from Suc.hyps(2) lt have "terminal_scroll_x y (x + 1) ?b i =
      (if y * 80 + (x + 1) \<le> i \<and> i < y * 80 + 80 then ?b (i + 80) else ?b i)"
    by (intro Suc.hyps(1)) simp_all
  with lt show ?case
    unfolding step by (cases "i = y * 80 + x") (auto simp: ac_simps)
qed

lemma terminal_scroll_y_cell:
  "y \<le> 24 \<Longrightarrow> terminal_scroll_y y b i =
     (if y * 80 \<le> i \<and> i < 24 * 80 then b (i + 80) else b i)"
proof (induction "24 - y" arbitrary: y b)
  case 0
  then have "y = 24" by simp
  then show ?case
    by (subst terminal_scroll_y.simps) auto
next
  case (Suc n)
  let ?b = "terminal_scroll_x y 0 b"
  from Suc.hyps(2) have lt: "y < 24" by simp
  then have step: "terminal_scroll_y y b = terminal_scroll_y (y + 1) ?b"
    by (subst terminal_scroll_y.simps) simp
  from Suc.hyps(2) lt have "terminal_scroll_y (y + 1) ?b i =
      (if (y + 1) * 80 \<le> i \<and> i < 24 * 80 then ?b (i + 80) else ?b i)"
    by (intro Suc.hyps(1)) simp_all
  with lt show ?case
    unfolding step by (auto simp: terminal_scroll_x_cell ac_simps)
qed

lemma terminal_scroll_clear_cell:
  "x \<le> 80 \<Longrightarrow> terminal_scroll_clear color x b i =
     (if 24 * 80 + x \<le> i \<and> i < 25 * 80 then vga_entry 32 color else b i)"
proof (induction "80 - x" arbitrary: x b)
  case 0
  then have "x = 80" by simp
  then show ?case
    by (subst terminal_scroll_clear.simps) auto
next
  case (Suc n)
  let ?b = "b(24 * 80 + x := vga_entry 32 color)"
  from Suc.hyps(2) have lt: "x < 80" by simp
  then have step: "terminal_scroll_clear color x b = terminal_scroll_clear color (x + 1) ?b"
    by (subst terminal_scroll_clear.simps) simp
  from Suc.hyps(2) lt have "terminal_scroll_clear color (x + 1) ?b i =
      (if 24 * 80 + (x + 1) \<le> i \<and> i < 25 * 80 then vga_entry 32 color else ?b i)"
    by (intro Suc.hyps(1)) simp_all
  with lt show ?case
    unfolding step by (auto simp: ac_simps)
qed

lemma terminal_scroll_buffer:
  "terminal_buffer (terminal_scroll s) i =
     (if i < 24 * 80 then terminal_buffer s (i + 80)
      else if i < 25 * 80 then vga_entry 32 (terminal_color s)
      else terminal_buffer s i)"
  by (simp add: terminal_scroll_def terminal_scroll_clear_cell terminal_scroll_y_cell)

lemma terminal_scroll_fields [simp]:
  "terminal_row (terminal_scroll s) = terminal_row s"
  "terminal_column (terminal_scroll s) = terminal_column s"
  "terminal_color (terminal_scroll s) = terminal_color s"
  by (simp_all add: terminal_scroll_def)



lemma inc_below:
  fixes a :: size_t
  shows "a < n \<Longrightarrow> a + 1 \<noteq> n \<Longrightarrow> a + 1 < n"
  by (metis inc_le order_le_less)

lemma cursor_in_bounds_scroll:
  "cursor_in_bounds (terminal_scroll s) = cursor_in_bounds s"
  by (simp add: cursor_in_bounds_def)

lemma cursor_in_bounds_putchar:
  "cursor_in_bounds s \<Longrightarrow> cursor_in_bounds (terminal_putchar c s)"
  by (auto simp: cursor_in_bounds_def terminal_putchar_def Let_def terminal_putentryat_def
      VGA_WIDTH_def VGA_HEIGHT_def not_le intro: inc_below)

lemma cursor_in_bounds_write_loop:
  "cursor_in_bounds s \<Longrightarrow> cursor_in_bounds (terminal_write_loop data sz i s)"
proof (induction data sz i s rule: terminal_write_loop.induct)
  case (1 data sz i s)
  then show ?case
    by (subst terminal_write_loop.simps) (simp add: cursor_in_bounds_putchar)
qed


lemma cursor_in_bounds_initialize: "cursor_in_bounds (terminal_initialize s)"
  by (simp add: cursor_in_bounds_def terminal_initialize_def Let_def VGA_WIDTH_def VGA_HEIGHT_def)

lemma terminal_writestring_len_unfold:
  "data len \<noteq> 0 \<Longrightarrow> terminal_writestring_len data len = terminal_writestring_len data (len + 1)"
  "data len = 0 \<Longrightarrow> terminal_writestring_len data len = Some len"
  by (subst terminal_writestring_len.simps, simp)+

subsection \<open>Writing strings\<close>

text \<open>\<open>terminal_write\<close> puts the bytes in order; \<open>terminal_writestring\<close> returns
  exactly when the data holds a zero byte, and writes the bytes before the first one.\<close>

lemma unat_of_nat64: "n < 2 ^ 64 \<Longrightarrow> unat (of_nat n :: size_t) = n"
  by (simp add: unat_of_nat take_bit_nat_eq_self)

lemma terminal_write_loop_unfold:
  "i < sz \<Longrightarrow> terminal_write_loop data sz i s
     = terminal_write_loop data sz (i + 1) (terminal_putchar (data i) s)"
  "\<not> i < sz \<Longrightarrow> terminal_write_loop data sz i s = s"
  by (subst terminal_write_loop.simps, simp)+

lemma upt_0_Suc_map: "[0..<Suc n] = 0 # map Suc [0..<n]"
  by (simp add: upt_conv_Cons map_Suc_upt del: upt_Suc)

lemma terminal_write_loop_fold:
  "unat i + n = unat sz \<Longrightarrow>
   terminal_write_loop data sz i s
     = fold terminal_putchar (map (\<lambda>k. data (i + of_nat k)) [0..<n]) s"
proof (induction n arbitrary: i s)
  case 0
  then have "\<not> i < sz"
    by (simp add: word_less_nat_alt)
  then show ?case
    by (simp add: terminal_write_loop_unfold)
next
  case (Suc n)
  then have lt: "i < sz"
    by (simp add: word_less_nat_alt)
  have "unat sz < 2 ^ 64"
    using unsigned_less [of sz, where 'a = nat] by simp
  with Suc.prems have "unat (i + 1) = unat i + 1"
    by (simp add: unat_word_ariths)
  with Suc.prems have "unat (i + 1) + n = unat sz"
    by simp
  then have "terminal_write_loop data sz (i + 1) (terminal_putchar (data i) s)
      = fold terminal_putchar (map (\<lambda>k. data (i + 1 + of_nat k)) [0..<n])
          (terminal_putchar (data i) s)"
    by (rule Suc.IH)
  with lt show ?case
    by (simp add: terminal_write_loop_unfold upt_0_Suc_map comp_def ac_simps del: upt_Suc)
qed

lemma terminal_writestring_len_Some:
  assumes n: "n < 2 ^ 64"
    and nz: "\<And>k. k < n \<Longrightarrow> data (of_nat k) \<noteq> 0"
    and z: "data (of_nat n) = 0"
  shows "j \<le> n \<Longrightarrow> terminal_writestring_len data (of_nat j) = Some (of_nat n)"
proof (induction "n - j" arbitrary: j)
  case 0
  then have "j = n" by simp
  with z show ?case
    by (simp add: terminal_writestring_len_unfold)
next
  case (Suc d)
  then have "j < n" by simp
  with nz have "data (of_nat j) \<noteq> 0" by simp
  moreover have "terminal_writestring_len data (of_nat (Suc j)) = Some (of_nat n)"
    using Suc by (intro Suc.hyps(1)) simp_all
  ultimately show ?case
    by (simp add: terminal_writestring_len_unfold ac_simps)
qed

lemma terminal_writestring_fold:
  assumes "n < 2 ^ 64"
    and "\<And>k. k < n \<Longrightarrow> data (of_nat k) \<noteq> 0"
    and "data (of_nat n) = 0"
  shows "terminal_writestring data s
     = Some (fold terminal_putchar (map (\<lambda>k. data (of_nat k)) [0..<n]) s)"
proof -
  have "terminal_writestring_len data (of_nat 0) = Some (of_nat n)"
    using assms by (intro terminal_writestring_len_Some) simp_all
  moreover have "terminal_write_loop data (of_nat n) 0 s
      = fold terminal_putchar (map (\<lambda>k. data (0 + of_nat k)) [0..<n]) s"
    using assms(1) by (intro terminal_write_loop_fold) (simp add: unat_of_nat64)
  ultimately show ?thesis
    by (simp add: terminal_writestring_def terminal_write_def)
qed

lemma terminal_writestring_len_Some_zero:
  "terminal_writestring_len data len = Some y \<Longrightarrow> \<exists>i. data i = 0"
  by (rule terminal_writestring_len.raw_induct
        [where P = "\<lambda>d l y. \<exists>i. d i = 0" and data = data and len = len and y = y])
    (auto split: if_splits)

lemma terminal_writestring_len_None:
  "(\<And>i. data i \<noteq> 0) \<Longrightarrow> terminal_writestring_len data len = None"
  using terminal_writestring_len_Some_zero [of data len]
  by (cases "terminal_writestring_len data len") auto

lemma of_char_word8_eq_0: "(of_char c :: uint8_t) = 0 \<longleftrightarrow> c = CHR 0x00"
proof -
  have "(of_char c :: uint8_t) = of_nat (of_char c)"
    by (simp add: of_nat_of_char)
  moreover have "(of_nat (of_char c) :: uint8_t) = 0 \<longleftrightarrow> (of_char c :: nat) = 0"
    using nat_dvd_not_less [of "of_char c" 256]
    by (auto simp: word_of_nat_eq_0_iff)
  moreover have "(of_char c :: nat) = 0 \<longleftrightarrow> c = CHR 0x00"
    using of_char_eq_iff [of c "CHR 0x00", where 'a = nat] by simp
  ultimately show ?thesis
    by simp
qed

lemma string_literal_nth:
  "k < length cs \<Longrightarrow> length cs < 2 ^ 64 \<Longrightarrow> string_literal cs (of_nat k) = of_char (cs ! k)"
  by (simp add: string_literal_def unat_of_nat64)

lemma string_literal_end:
  "length cs < 2 ^ 64 \<Longrightarrow> string_literal cs (of_nat (length cs)) = 0"
  by (simp add: string_literal_def unat_of_nat64)

lemma terminal_writestring_literal:
  assumes "length cs < 2 ^ 64" and "CHR 0x00 \<notin> set cs"
  shows "terminal_writestring (string_literal cs) s
     = Some (fold terminal_putchar (map of_char cs) s)"
proof -
  have "terminal_writestring (string_literal cs) s
      = Some (fold terminal_putchar (map (\<lambda>k. string_literal cs (of_nat k)) [0..<length cs]) s)"
  proof (rule terminal_writestring_fold)
    fix k assume "k < length cs"
    with assms show "string_literal cs (of_nat k) \<noteq> 0"
      by (auto simp: string_literal_nth of_char_word8_eq_0 in_set_conv_nth)
  qed (use assms in \<open>simp_all add: string_literal_end\<close>)
  moreover have "map (\<lambda>k. string_literal cs (of_nat k)) [0..<length cs] = map of_char cs"
    using assms(1) by (intro nth_equalityI) (simp_all add: string_literal_nth)
  ultimately show ?thesis
    by simp
qed

subsection \<open>The cursor stays inside the grid\<close>

text \<open>
  C5: the cursor bounds \<open>0 \<le> terminal_row < 25\<close> and \<open>0 \<le> terminal_column < 80\<close>
  hold after \<open>terminal_initialize\<close>, from any earlier terminal, and every terminal
  operation preserves them: \<open>terminal_putchar\<close> with any byte, \<open>terminal_write\<close> with any
  data and length, \<open>terminal_writestring\<close> whenever it returns, \<open>terminal_setcolor\<close> and
  \<open>terminal_scroll\<close>.
\<close>

theorem cursor_bounds_invariant:
  "cursor_in_bounds (terminal_initialize s0) \<and>
   (cursor_in_bounds s \<longrightarrow>
      cursor_in_bounds (terminal_putchar c s) \<and>
      cursor_in_bounds (terminal_write data sz s) \<and>
      (\<forall>s'. terminal_writestring data s = Some s' \<longrightarrow> cursor_in_bounds s') \<and>
      cursor_in_bounds (terminal_setcolor color s) \<and>
      cursor_in_bounds (terminal_scroll s))"
proof -
  have "cursor_in_bounds s'"
    if "cursor_in_bounds s" and "terminal_writestring data s = Some s'" for s'
    using that
    by (auto simp: terminal_writestring_def terminal_write_def cursor_in_bounds_write_loop
        split: option.splits)
  moreover have "cursor_in_bounds (terminal_setcolor color s)" if "cursor_in_bounds s"
    using that by (simp add: cursor_in_bounds_def terminal_setcolor_def)
  ultimately show ?thesis
    by (simp add: cursor_in_bounds_initialize cursor_in_bounds_putchar terminal_write_def
        cursor_in_bounds_write_loop cursor_in_bounds_scroll)
qed

theorem cursor_bounds_invariant_witness:
  "cursor_in_bounds \<lparr>terminal_row = 24, terminal_column = 79, terminal_color = 7,
      terminal_buffer = (\<lambda>i. 0)\<rparr> \<and>
   terminal_writestring (string_literal ''ok'')
     \<lparr>terminal_row = 24, terminal_column = 79, terminal_color = 7, terminal_buffer = (\<lambda>i. 0)\<rparr>
     = Some (terminal_write (string_literal ''ok'') 2
        \<lparr>terminal_row = 24, terminal_column = 79, terminal_color = 7, terminal_buffer = (\<lambda>i. 0)\<rparr>) \<and>
   cursor_in_bounds (terminal_write (string_literal ''ok'') 2
     \<lparr>terminal_row = 24, terminal_column = 79, terminal_color = 7, terminal_buffer = (\<lambda>i. 0)\<rparr>) \<and>
   cursor_in_bounds (terminal_putchar 65
     \<lparr>terminal_row = 24, terminal_column = 79, terminal_color = 7, terminal_buffer = (\<lambda>i. 0)\<rparr>)"
proof -
  let ?s = "\<lparr>terminal_row = 24, terminal_column = 79, terminal_color = 7,
      terminal_buffer = (\<lambda>i. 0 :: uint16_t)\<rparr>"
  have b: "cursor_in_bounds ?s"
    by (simp add: cursor_in_bounds_def VGA_WIDTH_def VGA_HEIGHT_def)
  have w: "terminal_writestring (string_literal ''ok'') ?s
      = Some (terminal_write (string_literal ''ok'') 2 ?s)"
    by (simp add: terminal_writestring_def terminal_writestring_len_unfold string_literal_def)
  from b w cursor_bounds_invariant [of ?s ?s 65 "string_literal ''ok''" 2 0]
  show ?thesis by simp
qed

subsection \<open>Scrolling\<close>

text \<open>
  C6: \<open>terminal_scroll\<close> copies, for every row \<open>y\<close> in \<open>0..VGA_HEIGHT-2\<close> and every
  column \<open>x\<close>, the cell at \<open>(x, y+1)\<close> into \<open>(x, y)\<close> and fills every cell of the last
  row with (space, current colour). At each of the three places where \<open>terminal_putchar\<close>
  advances the row (newline, a tab that wraps, a character written in the last column),
  an advance from the last row calls \<open>terminal_scroll\<close> and leaves the cursor row at
  \<open>VGA_HEIGHT - 1\<close>.
\<close>

theorem terminal_scroll_rows:
  "(\<forall>y<24. \<forall>x<80. terminal_buffer (terminal_scroll s) (y * 80 + x)
        = terminal_buffer s ((y + 1) * 80 + x)) \<and>
   (\<forall>x<80. terminal_buffer (terminal_scroll s) (24 * 80 + x)
        = vga_entry 32 (terminal_color s)) \<and>
   (terminal_row s = VGA_HEIGHT - 1 \<longrightarrow>
      terminal_putchar 10 s = terminal_scroll (s\<lparr>terminal_column := 0\<rparr>) \<and>
      terminal_row (terminal_putchar 10 s) = VGA_HEIGHT - 1) \<and>
   (terminal_row s = VGA_HEIGHT - 1 \<and> (terminal_column s + 4) AND NOT 3 \<ge> VGA_WIDTH \<longrightarrow>
      terminal_putchar 9 s = terminal_scroll (s\<lparr>terminal_column := 0\<rparr>) \<and>
      terminal_row (terminal_putchar 9 s) = VGA_HEIGHT - 1) \<and>
   (terminal_row s = VGA_HEIGHT - 1 \<and> terminal_column s + 1 = VGA_WIDTH \<and> c \<noteq> 10 \<and> c \<noteq> 9 \<longrightarrow>
      terminal_putchar c s = terminal_scroll
        (terminal_putentryat c (terminal_color s) (terminal_column s) (terminal_row s) s
           \<lparr>terminal_column := 0\<rparr>) \<and>
      terminal_row (terminal_putchar c s) = VGA_HEIGHT - 1)"
proof (intro conjI allI impI)
  fix y x :: nat
  assume "y < 24" "x < 80"
  then have "y * 80 + x < 24 * 80" by simp
  then show "terminal_buffer (terminal_scroll s) (y * 80 + x) = terminal_buffer s ((y + 1) * 80 + x)"
    by (simp add: terminal_scroll_buffer ac_simps)
next
  fix x :: nat
  assume "x < 80"
  then show "terminal_buffer (terminal_scroll s) (24 * 80 + x) = vga_entry 32 (terminal_color s)"
    by (simp add: terminal_scroll_buffer)
next
  assume "terminal_row s = VGA_HEIGHT - 1"
  then show "terminal_putchar 10 s = terminal_scroll (s\<lparr>terminal_column := 0\<rparr>)"
    by (cases s) (simp add: terminal_putchar_def Let_def VGA_HEIGHT_def)
  then show "terminal_row (terminal_putchar 10 s) = VGA_HEIGHT - 1"
    using \<open>terminal_row s = VGA_HEIGHT - 1\<close> by simp
next
  assume a: "terminal_row s = VGA_HEIGHT - 1 \<and> (terminal_column s + 4) AND NOT 3 \<ge> VGA_WIDTH"
  then show "terminal_putchar 9 s = terminal_scroll (s\<lparr>terminal_column := 0\<rparr>)"
    by (cases s) (simp add: terminal_putchar_def Let_def VGA_HEIGHT_def)
  then show "terminal_row (terminal_putchar 9 s) = VGA_HEIGHT - 1"
    using a by simp
next
  assume a: "terminal_row s = VGA_HEIGHT - 1 \<and> terminal_column s + 1 = VGA_WIDTH \<and> c \<noteq> 10 \<and> c \<noteq> 9"
  then show "terminal_putchar c s = terminal_scroll
        (terminal_putentryat c (terminal_color s) (terminal_column s) (terminal_row s) s
           \<lparr>terminal_column := 0\<rparr>)"
    by (cases s) (simp add: terminal_putchar_def Let_def VGA_HEIGHT_def VGA_WIDTH_def terminal_putentryat_def)
  then show "terminal_row (terminal_putchar c s) = VGA_HEIGHT - 1"
    using a by (simp add: terminal_putentryat_def)
qed


theorem terminal_scroll_rows_witness:
  "terminal_buffer (terminal_scroll \<lparr>terminal_row = 24, terminal_column = 79,
      terminal_color = 7, terminal_buffer = (\<lambda>i. of_nat i)\<rparr>) (3 * 80 + 5) = 325 \<and>
   terminal_buffer (terminal_scroll \<lparr>terminal_row = 24, terminal_column = 79,
      terminal_color = 7, terminal_buffer = (\<lambda>i. of_nat i)\<rparr>) (24 * 80 + 5) = 0x0720 \<and>
   terminal_row (terminal_putchar 10 \<lparr>terminal_row = 24, terminal_column = 79,
      terminal_color = 7, terminal_buffer = (\<lambda>i. of_nat i)\<rparr>) = 24 \<and>
   terminal_row (terminal_putchar 9 \<lparr>terminal_row = 24, terminal_column = 79,
      terminal_color = 7, terminal_buffer = (\<lambda>i. of_nat i)\<rparr>) = 24 \<and>
   terminal_row (terminal_putchar 65 \<lparr>terminal_row = 24, terminal_column = 79,
      terminal_color = 7, terminal_buffer = (\<lambda>i. of_nat i)\<rparr>) = 24"
proof -
  let ?s = "\<lparr>terminal_row = 24, terminal_column = 79, terminal_color = 7,
      terminal_buffer = (\<lambda>i. of_nat i :: uint16_t)\<rparr>"
  note rows = terminal_scroll_rows [of ?s 65]
  have "terminal_buffer (terminal_scroll ?s) (3 * 80 + 5) = terminal_buffer ?s ((3 + 1) * 80 + 5)"
    using rows [THEN conjunct1, rule_format, of 3 5] by simp
  moreover have "terminal_buffer (terminal_scroll ?s) (24 * 80 + 5) = vga_entry 32 (terminal_color ?s)"
    using rows [THEN conjunct2, THEN conjunct1, rule_format, of 5] by simp
  moreover have "terminal_row (terminal_putchar 10 ?s) = 24"
    using rows [THEN conjunct2, THEN conjunct2, THEN conjunct1, THEN mp, THEN conjunct2] by (simp add: VGA_HEIGHT_def)
  moreover have "terminal_row (terminal_putchar 9 ?s) = 24"
    using rows [THEN conjunct2, THEN conjunct2, THEN conjunct2, THEN conjunct1, THEN mp, THEN conjunct2]
    by (simp add: VGA_HEIGHT_def VGA_WIDTH_def)
  moreover have "terminal_row (terminal_putchar 65 ?s) = 24"
    using rows [THEN conjunct2, THEN conjunct2, THEN conjunct2, THEN conjunct2, THEN mp, THEN conjunct2]
    by (simp add: VGA_HEIGHT_def VGA_WIDTH_def)
  ultimately show ?thesis
    by (simp add: vga_entry_def)
qed

subsection \<open>Control characters\<close>

text \<open>
  C7: \<open>terminal_putchar\<close> with a tab sets the column to \<open>(col + 4) & ~3\<close>; when that is
  \<open>VGA_WIDTH\<close> or more, the call does exactly what a newline does (column 0, row advance,
  scroll from the last row). From column 5 the cursor moves to column 8, from column 0 to
  column 4, and from column 78 to column 0 of the next row.
\<close>

theorem terminal_putchar_tab:
  "terminal_putchar 9 s =
     (if (terminal_column s + 4) AND NOT 3 \<ge> VGA_WIDTH then terminal_putchar 10 s
      else s\<lparr>terminal_column := (terminal_column s + 4) AND NOT 3\<rparr>) \<and>
   (terminal_column s = 5 \<longrightarrow> terminal_putchar 9 s = s\<lparr>terminal_column := 8\<rparr>) \<and>
   (terminal_column s = 0 \<longrightarrow> terminal_putchar 9 s = s\<lparr>terminal_column := 4\<rparr>) \<and>
   (terminal_column s = 78 \<longrightarrow> terminal_putchar 9 s = terminal_putchar 10 s) \<and>
   (terminal_column s = 78 \<and> terminal_row s + 1 \<noteq> VGA_HEIGHT \<longrightarrow>
      terminal_putchar 9 s = s\<lparr>terminal_column := 0, terminal_row := terminal_row s + 1\<rparr>)"
proof -
  have general: "terminal_putchar 9 s =
     (if (terminal_column s + 4) AND NOT 3 \<ge> VGA_WIDTH then terminal_putchar 10 s
      else s\<lparr>terminal_column := (terminal_column s + 4) AND NOT 3\<rparr>)"
    by (simp add: terminal_putchar_def Let_def)
  have c5: "((5::size_t) + 4) AND NOT 3 = 8" by simp
  have c0: "((0::size_t) + 4) AND NOT 3 = 4" by simp
  have c78: "((78::size_t) + 4) AND NOT 3 = 80" by simp
  show ?thesis
    using c5 c0 c78
    by (simp add: general) (simp add: terminal_putchar_def Let_def VGA_WIDTH_def)
qed

text \<open>
  C10: when \<open>terminal_row + 1 < VGA_HEIGHT\<close>, \<open>terminal_putchar\<close> with a newline, and with
  a tab when \<open>(terminal_column + 4) & ~3 < VGA_WIDTH\<close>, leaves every cell of the buffer
  (and the colour) as it was: these control characters move the cursor only.
\<close>

theorem control_characters_paint_no_cell:
  "terminal_row s + 1 < VGA_HEIGHT \<Longrightarrow>
     terminal_buffer (terminal_putchar 10 s) = terminal_buffer s \<and>
     terminal_color (terminal_putchar 10 s) = terminal_color s \<and>
     ((terminal_column s + 4) AND NOT 3 < VGA_WIDTH \<longrightarrow>
        terminal_buffer (terminal_putchar 9 s) = terminal_buffer s \<and>
        terminal_color (terminal_putchar 9 s) = terminal_color s)"
  by (auto simp: terminal_putchar_def Let_def)


theorem terminal_putchar_tab_witness:
  "terminal_putchar 9 \<lparr>terminal_row = 3, terminal_column = 5, terminal_color = 7,
       terminal_buffer = (\<lambda>i. 0)\<rparr>
     = \<lparr>terminal_row = 3, terminal_column = 8, terminal_color = 7, terminal_buffer = (\<lambda>i. 0)\<rparr> \<and>
   terminal_putchar 9 \<lparr>terminal_row = 3, terminal_column = 0, terminal_color = 7,
       terminal_buffer = (\<lambda>i. 0)\<rparr>
     = \<lparr>terminal_row = 3, terminal_column = 4, terminal_color = 7, terminal_buffer = (\<lambda>i. 0)\<rparr> \<and>
   terminal_putchar 9 \<lparr>terminal_row = 3, terminal_column = 78, terminal_color = 7,
       terminal_buffer = (\<lambda>i. 0)\<rparr>
     = \<lparr>terminal_row = 4, terminal_column = 0, terminal_color = 7, terminal_buffer = (\<lambda>i. 0)\<rparr>"
  using
    terminal_putchar_tab [of "\<lparr>terminal_row = 3, terminal_column = 5, terminal_color = 7,
       terminal_buffer = (\<lambda>i. 0)\<rparr>", THEN conjunct2, THEN conjunct1]
    terminal_putchar_tab [of "\<lparr>terminal_row = 3, terminal_column = 0, terminal_color = 7,
       terminal_buffer = (\<lambda>i. 0)\<rparr>", THEN conjunct2, THEN conjunct2, THEN conjunct1]
    terminal_putchar_tab [of "\<lparr>terminal_row = 3, terminal_column = 78, terminal_color = 7,
       terminal_buffer = (\<lambda>i. 0)\<rparr>", THEN conjunct2, THEN conjunct2, THEN conjunct2, THEN conjunct2]
  by (simp add: VGA_HEIGHT_def)

theorem control_characters_paint_no_cell_witness:
  "terminal_row \<lparr>terminal_row = 3, terminal_column = 5, terminal_color = 7,
       terminal_buffer = (\<lambda>i. of_nat i)\<rparr> + 1 < VGA_HEIGHT \<and>
   terminal_buffer (terminal_putchar 10 \<lparr>terminal_row = 3, terminal_column = 5,
       terminal_color = 7, terminal_buffer = (\<lambda>i. of_nat i)\<rparr>) = (\<lambda>i. of_nat i) \<and>
   terminal_buffer (terminal_putchar 9 \<lparr>terminal_row = 3, terminal_column = 5,
       terminal_color = 7, terminal_buffer = (\<lambda>i. of_nat i)\<rparr>) = (\<lambda>i. of_nat i)"
  using control_characters_paint_no_cell [of "\<lparr>terminal_row = 3, terminal_column = 5,
       terminal_color = 7, terminal_buffer = (\<lambda>i. of_nat i)\<rparr>"]
  by (simp add: VGA_HEIGHT_def VGA_WIDTH_def)

subsection \<open>The tag loop\<close>

lemma parse_multiboot_loop_unfold:
  "tag_type m tag \<noteq> 0 \<Longrightarrow> parse_multiboot_loop m tag s
     = parse_multiboot_switch m tag s \<bind> parse_multiboot_loop m (next_tag m tag)"
  "tag_type m tag = 0 \<Longrightarrow> parse_multiboot_loop m tag s = Some s"
  by (subst parse_multiboot_loop.simps, simp)+

lemma parse_multiboot_loop_reaches_end:
  "parse_multiboot_loop m tag s = Some r \<Longrightarrow> \<exists>n. tag_type m ((next_tag m ^^ n) tag) = 0"
proof (rule parse_multiboot_loop.raw_induct
    [where P = "\<lambda>m tag s r. \<exists>n. tag_type m ((next_tag m ^^ n) tag) = 0"
       and m = m and tag = tag and s = s and y = r])
  fix f :: "memory \<Rightarrow> uint64_t \<Rightarrow> terminal \<Rightarrow> terminal option" and m tag s r
  assume IH: "\<And>m tag s r. f m tag s = Some r \<Longrightarrow> \<exists>n. tag_type m ((next_tag m ^^ n) tag) = 0"
    and step: "(if tag_type m tag \<noteq> 0
      then parse_multiboot_switch m tag s \<bind> f m (next_tag m tag) else Some s) = Some r"
  show "\<exists>n. tag_type m ((next_tag m ^^ n) tag) = 0"
  proof (cases "tag_type m tag = 0")
    case True
    then have "tag_type m ((next_tag m ^^ 0) tag) = 0" by simp
    then show ?thesis by blast
  next
    case False
    with step obtain s' where "f m (next_tag m tag) s' = Some r"
      by (auto simp: bind_eq_Some_conv)
    then obtain n where "tag_type m ((next_tag m ^^ n) (next_tag m tag)) = 0"
      using IH by blast
    then have "tag_type m ((next_tag m ^^ Suc n) tag) = 0"
      by (simp add: funpow_swap1)
    then show ?thesis by blast
  qed
qed

lemma parse_multiboot_loop_stuck:
  assumes "tag_type m tag \<noteq> 0" and "next_tag m tag = tag"
  shows "parse_multiboot_loop m tag s = None"
proof -
  have "(next_tag m ^^ n) tag = tag" for n
    using assms(2) by (induction n) simp_all
  with assms(1) have "\<nexists>n. tag_type m ((next_tag m ^^ n) tag) = 0"
    by simp
  then show ?thesis
    using parse_multiboot_loop_reaches_end [of m tag s]
    by (cases "parse_multiboot_loop m tag s") auto
qed

lemma parse_multiboot_info_header:
  "parse_multiboot_info m multiboot_addr s
     = parse_multiboot_loop m (multiboot_addr + 8)
         (fold terminal_putchar (map of_char ''Multiboot information at: 0x\<newline>'') s)"
  by (simp add: parse_multiboot_info_def terminal_writestring_literal)

lemma parse_multiboot_switch_meminfo:
  "tag_type m tag = 4 \<Longrightarrow> parse_multiboot_switch m tag s
     = Some (fold terminal_putchar (map of_char ''  Memory detected\<newline>'') s)"
  by (simp add: parse_multiboot_switch_def terminal_writestring_literal)

lemma parse_multiboot_switch_other:
  "tag_type m tag \<noteq> 1 \<Longrightarrow> tag_type m tag \<noteq> 2 \<Longrightarrow> tag_type m tag \<noteq> 4 \<Longrightarrow>
   parse_multiboot_switch m tag s = Some s"
  by (simp add: parse_multiboot_switch_def)

lemma parse_multiboot_switch_string:
  assumes "n < 2 ^ 64"
    and "\<And>k. k < n \<Longrightarrow> m (tag + 8 + of_nat k) \<noteq> 0"
    and "m (tag + 8 + of_nat n) = 0"
  shows "tag_type m tag = 1 \<Longrightarrow> parse_multiboot_switch m tag s
     = Some (fold terminal_putchar
         (map of_char ''  Command line: '' @ map (\<lambda>k. m (tag + 8 + of_nat k)) [0..<n] @ [10]) s)"
    and "tag_type m tag = 2 \<Longrightarrow> parse_multiboot_switch m tag s
     = Some (fold terminal_putchar
         (map of_char ''  Bootloader: '' @ map (\<lambda>k. m (tag + 8 + of_nat k)) [0..<n] @ [10]) s)"
proof -
  have str: "terminal_writestring (tag_string m tag) s'
      = Some (fold terminal_putchar (map (\<lambda>k. m (tag + 8 + of_nat k)) [0..<n]) s')" for s'
    using terminal_writestring_fold [of n "tag_string m tag" s'] assms
    by (simp add: tag_string_def)
  show "tag_type m tag = 1 \<Longrightarrow> parse_multiboot_switch m tag s
     = Some (fold terminal_putchar
         (map of_char ''  Command line: '' @ map (\<lambda>k. m (tag + 8 + of_nat k)) [0..<n] @ [10]) s)"
    by (simp add: parse_multiboot_switch_def terminal_writestring_literal str)
  show "tag_type m tag = 2 \<Longrightarrow> parse_multiboot_switch m tag s
     = Some (fold terminal_putchar
         (map of_char ''  Bootloader: '' @ map (\<lambda>k. m (tag + 8 + of_nat k)) [0..<n] @ [10]) s)"
    by (simp add: parse_multiboot_switch_def terminal_writestring_literal str)
qed

lemma parse_multiboot_switch_unterminated:
  assumes "\<And>i. m (tag + 8 + i) \<noteq> 0" and "tag_type m tag = 1 \<or> tag_type m tag = 2"
  shows "parse_multiboot_switch m tag s = None"
proof -
  have "terminal_writestring (tag_string m tag) s' = None" for s'
    using terminal_writestring_len_None [of "tag_string m tag" 0] assms(1)
    by (simp add: terminal_writestring_def tag_string_def)
  with assms(2) show ?thesis
    by (auto simp: parse_multiboot_switch_def terminal_writestring_literal)
qed

lemma terminal_writestring_bytes:
  "terminal_writestring data s
     = map_option (\<lambda>len. fold terminal_putchar (map (\<lambda>k. data (of_nat k)) [0..<unat len]) s)
         (terminal_writestring_len data 0)"
proof (cases "terminal_writestring_len data 0")
  case None
  then show ?thesis
    by (simp add: terminal_writestring_def)
next
  case (Some len)
  have "terminal_write_loop data len 0 s
      = fold terminal_putchar (map (\<lambda>k. data (0 + of_nat k)) [0..<unat len]) s"
    by (rule terminal_write_loop_fold) simp
  with Some show ?thesis
    by (simp add: terminal_writestring_def terminal_write_def)
qed

lemma parse_multiboot_switch_output:
  "parse_multiboot_switch m tag s
     = map_option (\<lambda>bs. fold terminal_putchar bs s) (tag_output m tag)"
  by (cases "terminal_writestring_len (tag_string m tag) 0")
    (simp_all add: parse_multiboot_switch_def tag_output_def terminal_writestring_literal
      terminal_writestring_bytes [of "tag_string m tag"])

lemma parse_multiboot_loop_output:
  "(\<forall>k<n. tag_type m ((next_tag m ^^ k) tag) \<noteq> 0) \<Longrightarrow>
   tag_type m ((next_tag m ^^ n) tag) = 0 \<Longrightarrow>
   parse_multiboot_loop m tag s
     = map_option (\<lambda>bs. fold terminal_putchar bs s) (walk_output m tag n)"
proof (induction n arbitrary: tag s)
  case 0
  then show ?case
    by (simp add: parse_multiboot_loop_unfold)
next
  case (Suc n)
  from Suc.prems(1) have ty: "tag_type m tag \<noteq> 0"
    by (metis funpow_0 zero_less_Suc)
  have "\<forall>k<n. tag_type m ((next_tag m ^^ k) (next_tag m tag)) \<noteq> 0"
    using Suc.prems(1) by (metis Suc_less_eq funpow_simps_right(2) o_apply)
  moreover have "tag_type m ((next_tag m ^^ n) (next_tag m tag)) = 0"
    using Suc.prems(2) by (simp add: funpow_swap1)
  ultimately have IH: "parse_multiboot_loop m (next_tag m tag) s'
      = map_option (\<lambda>bs. fold terminal_putchar bs s') (walk_output m (next_tag m tag) n)" for s'
    by (rule Suc.IH)
  show ?case
  proof (cases "tag_output m tag")
    case None
    with ty show ?thesis
      by (simp add: parse_multiboot_loop_unfold parse_multiboot_switch_output)
  next
    case (Some bs)
    with ty show ?thesis
      by (cases "walk_output m (next_tag m tag) n")
        (simp_all add: parse_multiboot_loop_unfold parse_multiboot_switch_output IH)
  qed
qed

lemma tag_output_string:
  assumes "tag_type m tag = 1 \<or> tag_type m tag = 2"
    and "j < 2 ^ 64"
    and "\<forall>k<j. m (tag + 8 + of_nat k) \<noteq> 0"
    and "m (tag + 8 + of_nat j) = 0"
  shows "tag_output m tag
     = Some (map of_char (if tag_type m tag = 1 then ''  Command line: '' else ''  Bootloader: '')
          @ map (\<lambda>k. m (tag + 8 + of_nat k)) [0..<j] @ [10])"
proof -
  have "terminal_writestring_len (tag_string m tag) (of_nat 0) = Some (of_nat j)"
    using assms(2-4) by (intro terminal_writestring_len_Some) (simp_all add: tag_string_def)
  then have "terminal_writestring_len (tag_string m tag) 0 = Some (of_nat j)"
    by simp
  moreover have "unat (of_nat j :: size_t) = j"
    using assms(2) by (rule unat_of_nat64)
  ultimately show ?thesis
    using assms(1) by (auto simp: tag_output_def tag_string_def)
qed

subsection \<open>Colour and rounding\<close>

lemma terminal_color_putchar [simp]:
  "terminal_color (terminal_putchar c s) = terminal_color s"
  by (simp add: terminal_putchar_def Let_def terminal_putentryat_def)

lemma terminal_color_fold_putchar [simp]:
  "terminal_color (fold terminal_putchar cs s) = terminal_color s"
  by (induction cs arbitrary: s) simp_all

lemma terminal_color_write_loop:
  "terminal_color (terminal_write_loop data sz i s) = terminal_color s"
proof (induction data sz i s rule: terminal_write_loop.induct)
  case (1 data sz i s)
  then show ?case
    by (cases "i < sz") (simp_all add: terminal_write_loop_unfold)
qed

lemma terminal_color_writestring:
  "terminal_writestring data s = Some s' \<Longrightarrow> terminal_color s' = terminal_color s"
  by (auto simp: terminal_writestring_def terminal_write_def terminal_color_write_loop
      split: option.splits)

lemma terminal_color_switch:
  "parse_multiboot_switch m tag s = Some s' \<Longrightarrow> terminal_color s' = terminal_color s"
  by (auto simp: parse_multiboot_switch_def bind_eq_Some_conv
      dest!: terminal_color_writestring split: if_splits)

lemma terminal_color_loop:
  "parse_multiboot_loop m tag s = Some r \<Longrightarrow> terminal_color r = terminal_color s"
proof (rule parse_multiboot_loop.raw_induct
    [where P = "\<lambda>m tag s r. terminal_color r = terminal_color s"
       and m = m and tag = tag and s = s and y = r])
  fix f :: "memory \<Rightarrow> uint64_t \<Rightarrow> terminal \<Rightarrow> terminal option" and m tag s r
  assume IH: "\<And>m tag s r. f m tag s = Some r \<Longrightarrow> terminal_color r = terminal_color s"
    and step: "(if tag_type m tag \<noteq> 0
      then parse_multiboot_switch m tag s \<bind> f m (next_tag m tag) else Some s) = Some r"
  show "terminal_color r = terminal_color s"
  proof (cases "tag_type m tag = 0")
    case True
    with step show ?thesis by simp
  next
    case False
    with step obtain s' where "parse_multiboot_switch m tag s = Some s'"
      and "f m (next_tag m tag) s' = Some r"
      by (auto simp: bind_eq_Some_conv)
    then show ?thesis
      using IH terminal_color_switch by fastforce
  qed
qed

lemma below_8_cases: "n < 8 \<Longrightarrow> n \<in> {0, 1, 2, 3, 4, 5, 6, 7 :: nat}"
  by auto

lemma round_up_small_nat:
  "n < 8 \<Longrightarrow> ((of_nat n :: uint32_t) + 7) AND NOT 7 = (if (of_nat n :: uint32_t) = 0 then 0 else 8)"
proof -
  assume "n < 8"
  then have "n \<in> {0, 1, 2, 3, 4, 5, 6, 7}"
    by (rule below_8_cases)
  then show ?thesis
    by (elim insertE emptyE) simp_all
qed

lemma round_up_small:
  fixes sz :: uint32_t
  assumes "sz < 8"
  shows "(sz + 7) AND NOT 7 = (if sz = 0 then 0 else 8)"
proof -
  from assms have "unat sz < 8"
    by (simp add: word_less_nat_alt)
  then show ?thesis
    using round_up_small_nat [of "unat sz"] by simp
qed

subsection \<open>Running the parser on the blocks\<close>

lemma replicate_expand:
  "replicate 2 x = [x, x]" "replicate 3 x = [x, x, x]" "replicate 4 x = [x, x, x, x]"
  "replicate 5 x = [x, x, x, x, x]" "replicate 6 x = [x, x, x, x, x, x]"
  "replicate 7 x = [x, x, x, x, x, x, x]"
  by (simp_all add: eval_nat_numeral)

lemma boot_block_bytes:
  "boot_block ml mu =
    [80, 0, 0, 0, 0, 0, 0, 0,
     1, 0, 0, 0, 23, 0, 0, 0, 114, 111, 111, 116, 61, 47, 100, 101, 118, 47, 115, 100, 97, 49, 0, 0,
     2, 0, 0, 0, 18, 0, 0, 0, 71, 82, 85, 66, 32, 50, 46, 48, 54, 0, 0, 0, 0, 0, 0, 0,
     4, 0, 0, 0, 16, 0, 0, 0] @ uint32_bytes ml @ uint32_bytes mu @ [0, 0, 0, 0, 8, 0, 0, 0]"
  by (simp add: boot_block_def string_tag_def meminfo_tag_def end_tag_def uint32_bytes_def
      replicate_expand)

lemma boot_block_tags:
  "tag_type (memory_of 0x10000 (boot_block ml mu)) 0x10008 = 1"
  "next_tag (memory_of 0x10000 (boot_block ml mu)) 0x10008 = 0x10020"
  "tag_type (memory_of 0x10000 (boot_block ml mu)) 0x10020 = 2"
  "next_tag (memory_of 0x10000 (boot_block ml mu)) 0x10020 = 0x10038"
  "tag_type (memory_of 0x10000 (boot_block ml mu)) 0x10038 = 4"
  "next_tag (memory_of 0x10000 (boot_block ml mu)) 0x10038 = 0x10048"
  "tag_type (memory_of 0x10000 (boot_block ml mu)) 0x10048 = 0"
  by (simp_all add: next_tag_def tag_type_def tag_size_def read_uint32_def memory_of_def
      boot_block_bytes uint32_bytes_def)

lemma boot_block_strings:
  "terminal_writestring (tag_string (memory_of 0x10000 (boot_block ml mu)) 0x10008) s
     = Some (fold terminal_putchar (map of_char ''root=/dev/sda1'') s)"
  "terminal_writestring (tag_string (memory_of 0x10000 (boot_block ml mu)) 0x10020) s
     = Some (fold terminal_putchar (map of_char ''GRUB 2.06'') s)"
  by (simp_all add: terminal_writestring_def terminal_writestring_len_unfold terminal_write_def
      terminal_write_loop_unfold tag_string_def memory_of_def boot_block_bytes)

lemma boot_block_parse:
  "parse_multiboot_info (memory_of 0x10000 (boot_block ml mu)) 0x10000 s
     = Some (fold terminal_putchar (map of_char
         ''Multiboot information at: 0x\<newline>  Command line: root=/dev/sda1\<newline>  Bootloader: GRUB 2.06\<newline>  Memory detected\<newline>'') s)"
  by (simp add: parse_multiboot_info_header parse_multiboot_loop_unfold boot_block_tags
      parse_multiboot_switch_def boot_block_strings terminal_writestring_literal)

lemma block_bytes:
  "unterminated_block =
     [32, 0, 0, 0, 0, 0, 0, 0, 1, 0, 0, 0, 9, 0, 0, 0, 65, 66, 66, 66, 66, 66, 66, 66,
      0, 0, 0, 0, 8, 0, 0, 0]"
  "short_size_block =
     [32, 0, 0, 0, 0, 0, 0, 0, 1, 0, 0, 0, 7, 0, 0, 0, 104, 105, 0, 0, 8, 0, 0, 0,
      0, 0, 0, 0, 8, 0, 0, 0]"
  "endless_block = [16, 0, 0, 0, 0, 0, 0, 0, 5, 0, 0, 0, 0, 0, 0, 0]"
  "empty_block = [16, 0, 0, 0, 0, 0, 0, 0, 0, 0, 0, 0, 8, 0, 0, 0]"
  by (simp_all add: unterminated_block_def short_size_block_def endless_block_def
      empty_block_def end_tag_def uint32_bytes_def replicate_expand)

lemmas field_defs = next_tag_def tag_type_def tag_size_def read_uint32_def memory_of_def

lemmas writestring_eval = terminal_writestring_def terminal_writestring_len_unfold
  terminal_write_def terminal_write_loop_unfold tag_string_def memory_of_def

subsection \<open>String tags\<close>

lemma unterminated_block_parse:
  "parse_multiboot_info (memory_of 0x10000 unterminated_block) 0x10000 s
     = Some (fold terminal_putchar (map of_char
         ''Multiboot information at: 0x\<newline>  Command line: ABBBBBBB\<newline>'') s)"
proof -
  let ?m = "memory_of 0x10000 unterminated_block"
  have tags: "tag_type ?m 0x10008 = 1" "next_tag ?m 0x10008 = 0x10018" "tag_type ?m 0x10018 = 0"
    by (simp_all add: field_defs block_bytes)
  have str: "terminal_writestring (tag_string ?m 0x10008) s'
      = Some (fold terminal_putchar (map of_char ''ABBBBBBB'') s')" for s'
    by (simp add: writestring_eval block_bytes)
  show ?thesis
    by (simp add: parse_multiboot_info_header parse_multiboot_loop_unfold tags
        parse_multiboot_switch_def str terminal_writestring_literal)
qed

text \<open>
  About C1. The parser hands \<open>cmd->string\<close> to \<open>terminal_writestring\<close>, whose length
  loop stops at a zero byte and never looks at the tag's \<open>size\<close>. On the block whose
  command-line tag has size 9, so one payload byte, the loop counts 8 bytes and the parser
  writes \<open>ABBBBBBB\<close>: the seven bytes behind the tag's declared extent are written too,
  and the byte after them, the first of the end tag, is read as the terminator. The
  string is not cut at the size boundary.
\<close>

theorem string_tag_read_past_size:
  "tag_type (memory_of 0x10000 unterminated_block) 0x10008 = 1 \<and>
   tag_size (memory_of 0x10000 unterminated_block) 0x10008 = 9 \<and>
   terminal_writestring_len (tag_string (memory_of 0x10000 unterminated_block) 0x10008) 0 = Some 8 \<and>
   parse_multiboot_info (memory_of 0x10000 unterminated_block) 0x10000 test_terminal
     = Some (fold terminal_putchar (map of_char
         ''Multiboot information at: 0x\<newline>  Command line: ABBBBBBB\<newline>'') test_terminal)"
  by (simp add: unterminated_block_parse)
    (simp add: field_defs block_bytes terminal_writestring_len_unfold tag_string_def)

text \<open>
  C1, as the code has it: for a tag of type 1 or 2 the parser reads the payload from
  offset 8 up to the first zero byte, wherever it lies, and writes the label, exactly
  those bytes and a newline. The tag's \<open>size\<close> does not occur: the decoded string is the
  same whatever the size field holds.
\<close>

theorem string_tag_decoded_to_first_zero:
  assumes "tag_type m tag = 1 \<or> tag_type m tag = 2"
    and "n < 2 ^ 64"
    and "\<forall>k<n. m (tag + 8 + of_nat k) \<noteq> 0"
    and "m (tag + 8 + of_nat n) = 0"
  shows "parse_multiboot_switch m tag s
     = Some (fold terminal_putchar
         (map of_char (if tag_type m tag = 1 then ''  Command line: '' else ''  Bootloader: '')
            @ map (\<lambda>k. m (tag + 8 + of_nat k)) [0..<n] @ [10]) s)"
  using assms parse_multiboot_switch_string [of n m tag s] by auto

theorem string_tag_decoded_to_first_zero_witness:
  "tag_type (memory_of 0x10000 unterminated_block) 0x10008 = 1 \<and>
   tag_size (memory_of 0x10000 unterminated_block) 0x10008 = 9 \<and>
   parse_multiboot_switch (memory_of 0x10000 unterminated_block) 0x10008 test_terminal
     = Some (fold terminal_putchar (map of_char ''  Command line: ABBBBBBB\<newline>'') test_terminal)"
proof -
  let ?m = "memory_of 0x10000 unterminated_block"
  have ty: "tag_type ?m 0x10008 = 1" and sz: "tag_size ?m 0x10008 = 9"
    by (simp_all add: field_defs block_bytes)
  have byte: "?m (0x10008 + 8 + of_nat k) = map of_char ''ABBBBBBB'' ! k" if "k < 8" for k
    using below_8_cases [OF that]
    by (elim insertE emptyE) (simp_all add: memory_of_def block_bytes)
  have nz: "\<forall>k<8. ?m (0x10008 + 8 + of_nat k) \<noteq> 0"
  proof (intro allI impI)
    fix k :: nat
    assume "k < 8"
    from below_8_cases [OF this] show "?m (0x10008 + 8 + of_nat k) \<noteq> 0"
      by (elim insertE emptyE) (simp_all add: memory_of_def block_bytes)
  qed
  have z: "?m (0x10008 + 8 + of_nat 8) = 0"
    by (simp add: memory_of_def block_bytes)
  have "parse_multiboot_switch ?m 0x10008 test_terminal
     = Some (fold terminal_putchar
         (map of_char (if tag_type ?m 0x10008 = 1 then ''  Command line: '' else ''  Bootloader: '')
            @ map (\<lambda>k. ?m (0x10008 + 8 + of_nat k)) [0..<8] @ [10]) test_terminal)"
    using ty nz z by (intro string_tag_decoded_to_first_zero) simp_all
  moreover have "map (\<lambda>k. ?m (0x10008 + 8 + of_nat k)) [0..<8] = map of_char ''ABBBBBBB''"
    using byte by (intro nth_equalityI) simp_all
  ultimately show ?thesis
    using ty sz by simp
qed

subsection \<open>Tags with a size below 8\<close>

lemma short_size_block_parse:
  "parse_multiboot_info (memory_of 0x10000 short_size_block) 0x10000 s
     = Some (fold terminal_putchar (map of_char
         ''Multiboot information at: 0x\<newline>  Command line: hi\<newline>'') s)"
proof -
  let ?m = "memory_of 0x10000 short_size_block"
  have tags: "tag_type ?m 0x10008 = 1" "next_tag ?m 0x10008 = 0x10010"
      "tag_type ?m 0x10010 = 0x6968" "next_tag ?m 0x10010 = 0x10018" "tag_type ?m 0x10018 = 0"
    by (simp_all add: field_defs block_bytes)
  have str: "terminal_writestring (tag_string ?m 0x10008) s'
      = Some (fold terminal_putchar (map of_char ''hi'') s')" for s'
    by (simp add: writestring_eval block_bytes)
  show ?thesis
    by (simp add: parse_multiboot_info_header parse_multiboot_loop_unfold tags
        parse_multiboot_switch_def str terminal_writestring_literal)
qed

text \<open>
  About C2. The loop has no test on \<open>size\<close>. On the block whose command-line tag has
  size 7, the parser writes the payload \<open>hi\<close>, steps the cursor by 8 past the tag, takes
  the payload bytes for the next tag header, and returns at the end tag as on a
  well-formed block.
\<close>

theorem small_size_tag_processed:
  "tag_type (memory_of 0x10000 short_size_block) 0x10008 = 1 \<and>
   tag_size (memory_of 0x10000 short_size_block) 0x10008 = 7 \<and>
   next_tag (memory_of 0x10000 short_size_block) 0x10008 = 0x10010 \<and>
   parse_multiboot_info (memory_of 0x10000 short_size_block) 0x10000 test_terminal
     = Some (fold terminal_putchar (map of_char
         ''Multiboot information at: 0x\<newline>  Command line: hi\<newline>'') test_terminal)"
  by (simp add: short_size_block_parse) (simp add: field_defs block_bytes)

text \<open>
  C2, as the code has it: a tag whose size field is below 8 is not rejected. The parser
  treats it by its type like any other tag and goes on at the cursor plus
  \<open>(size + 7) & ~7\<close>, which is 8 for the sizes 1 to 7 and 0 for the size 0.
\<close>

theorem small_size_not_rejected:
  assumes "tag_type m tag \<noteq> 0" and "tag_size m tag < 8"
  shows "parse_multiboot_loop m tag s
     = parse_multiboot_switch m tag s
         \<bind> parse_multiboot_loop m (if tag_size m tag = 0 then tag else tag + 8)"
proof -
  have "next_tag m tag = (if tag_size m tag = 0 then tag else tag + 8)"
    using round_up_small [OF assms(2)] by (simp add: next_tag_def)
  with assms(1) show ?thesis
    by (simp add: parse_multiboot_loop_unfold)
qed

theorem small_size_not_rejected_witness:
  "tag_type (memory_of 0x10000 short_size_block) 0x10008 \<noteq> 0 \<and>
   tag_size (memory_of 0x10000 short_size_block) 0x10008 < 8 \<and>
   parse_multiboot_loop (memory_of 0x10000 short_size_block) 0x10008 test_terminal
     = parse_multiboot_switch (memory_of 0x10000 short_size_block) 0x10008 test_terminal
         \<bind> parse_multiboot_loop (memory_of 0x10000 short_size_block) 0x10010"
proof -
  let ?m = "memory_of 0x10000 short_size_block"
  have ty: "tag_type ?m 0x10008 = 1" and sz: "tag_size ?m 0x10008 = 7"
    by (simp_all add: field_defs block_bytes)
  from small_size_not_rejected [of ?m "0x10008" test_terminal] ty sz
  show ?thesis
    by simp
qed

subsection \<open>Blocks without an end tag\<close>

lemma endless_block_parse:
  "parse_multiboot_info (memory_of 0x10000 endless_block) 0x10000 s = None"
proof -
  let ?m = "memory_of 0x10000 endless_block"
  have "tag_type ?m 0x10008 \<noteq> 0" "next_tag ?m 0x10008 = 0x10008"
    by (simp_all add: field_defs block_bytes)
  then have "parse_multiboot_loop ?m 0x10008 s' = None" for s'
    by (rule parse_multiboot_loop_stuck)
  then show ?thesis
    by (simp add: parse_multiboot_info_header)
qed

text \<open>
  About C3. The block declares a total size of 16 and holds one tag of type 5 and size 0.
  The step to the next tag is 0, the loop stays on that tag, and \<open>parse_multiboot_info\<close>
  never returns.
\<close>

theorem parse_iterates_indefinitely:
  "read_uint32 (memory_of 0x10000 endless_block) 0x10000 = 16 \<and>
   tag_type (memory_of 0x10000 endless_block) 0x10008 = 5 \<and>
   tag_size (memory_of 0x10000 endless_block) 0x10008 = 0 \<and>
   parse_multiboot_info (memory_of 0x10000 endless_block) 0x10000 test_terminal = None"
  by (simp add: endless_block_parse) (simp add: field_defs block_bytes)

text \<open>
  C3, as the code has it: the loop ends at a tag of type 0 and nowhere else, and the total
  size in the header is never read. When the walk over the tags, from offset 8 in steps of
  \<open>(size + 7) & ~7\<close>, never comes to a tag of type 0, \<open>parse_multiboot_info\<close> does not
  return; there is no malformed-block result.
\<close>

theorem parse_ends_only_at_end_tag:
  assumes "\<forall>n. tag_type m ((next_tag m ^^ n) (multiboot_addr + 8)) \<noteq> 0"
  shows "parse_multiboot_info m multiboot_addr s = None"
proof (cases "parse_multiboot_info m multiboot_addr s")
  case None
  then show ?thesis .
next
  case (Some r)
  then have "\<exists>n. tag_type m ((next_tag m ^^ n) (multiboot_addr + 8)) = 0"
    unfolding parse_multiboot_info_header by (rule parse_multiboot_loop_reaches_end)
  with assms show ?thesis
    by blast
qed

theorem parse_ends_only_at_end_tag_witness:
  "tag_type (memory_of 0x10000 endless_block) ((next_tag (memory_of 0x10000 endless_block) ^^ 3) (0x10000 + 8)) \<noteq> 0 \<and>
   parse_multiboot_info (memory_of 0x10000 endless_block) 0x10000 test_terminal = None"
proof -
  let ?m = "memory_of 0x10000 endless_block"
  have ty: "tag_type ?m 0x10008 \<noteq> 0" and nx: "next_tag ?m 0x10008 = 0x10008"
    by (simp_all add: field_defs block_bytes)
  have walk: "(next_tag ?m ^^ n) 0x10008 = 0x10008" for n
    using nx by (induction n) simp_all
  with ty have "\<forall>n. tag_type ?m ((next_tag ?m ^^ n) (0x10000 + 8)) \<noteq> 0"
    by simp
  from parse_ends_only_at_end_tag [OF this, of test_terminal] walk [of 3] ty show ?thesis
    by simp
qed

subsection \<open>A well-formed block\<close>

text \<open>
  About C8. The case for type 4 casts the tag and reads neither \<open>mem_lower\<close> nor
  \<open>mem_upper\<close>. The block with the fields 639 and 130048 and the block with both fields 0
  are different blocks, and the parser's result on them is the same: the result does not
  carry the two fields.
\<close>

theorem meminfo_fields_not_carried:
  "boot_block 639 130048 \<noteq> boot_block 0 0 \<and>
   parse_multiboot_info (memory_of 0x10000 (boot_block 639 130048)) 0x10000 test_terminal
     = parse_multiboot_info (memory_of 0x10000 (boot_block 0 0)) 0x10000 test_terminal"
  by (simp add: boot_block_parse) (simp add: boot_block_bytes uint32_bytes_def)

text \<open>
  C8, as the code has it: on the block with a command-line tag \<open>root=/dev/sda1\<close>, a
  bootloader-name tag \<open>GRUB 2.06\<close>, a basic memory information tag and an end tag, the
  parser returns, having written its heading and then exactly three lines in that order:
  the command line and the bootloader name with those exact strings, and the line
  \<open>Memory detected\<close>, which is the same whatever \<open>mem_lower\<close> and \<open>mem_upper\<close> hold.
\<close>

theorem well_formed_block_report:
  "parse_multiboot_info (memory_of 0x10000 (boot_block mem_lower mem_upper)) 0x10000 s
     = Some (fold terminal_putchar (map of_char
         ''Multiboot information at: 0x\<newline>  Command line: root=/dev/sda1\<newline>  Bootloader: GRUB 2.06\<newline>  Memory detected\<newline>'') s)"
  by (rule boot_block_parse)

subsection \<open>The entry point\<close>

lemma kernel_main_wrong_magic:
  "magic \<noteq> 0x36d76289 \<Longrightarrow> kernel_main m s0 magic multiboot_addr = Some (fatal_halt_screen s0)"
  by (simp add: kernel_main_def terminal_writestring_literal fatal_halt_screen_def boot_banner_def)

lemma kernel_main_right_magic:
  "kernel_main m s0 0x36d76289 multiboot_addr
     = map_option ready_screen (parse_multiboot_info m multiboot_addr (parsing_screen s0))"
proof (cases "parse_multiboot_info m multiboot_addr (parsing_screen s0)")
  case None
  then show ?thesis
    by (simp add: kernel_main_def terminal_writestring_literal parsing_screen_def boot_banner_def)
next
  case (Some r)
  then show ?thesis
    by (simp add: kernel_main_def terminal_writestring_literal parsing_screen_def boot_banner_def
        ready_screen_def)
qed


text \<open>
  C4: \<open>kernel_main\<close> calls the parser if and only if \<open>magic\<close> is \<open>0x36d76289\<close>. With
  that value it goes on to \<open>parse_multiboot_info\<close> on the given block and address, and
  reaches the halt only when the parser returns. With any other 64-bit value it writes the
  error in light red and reaches the halt with a terminal that depends on neither the
  block nor the address: the parser is not called.
\<close>

theorem kernel_main_magic:
  "kernel_main m s0 magic multiboot_addr =
     (if magic = 0x36d76289
      then map_option ready_screen (parse_multiboot_info m multiboot_addr (parsing_screen s0))
      else Some (fatal_halt_screen s0)) \<and>
   (magic \<noteq> 0x36d76289 \<longrightarrow>
      kernel_main m s0 magic multiboot_addr = kernel_main m' s0 0 multiboot_addr') \<and>
   (magic = 0x36d76289 \<and> parse_multiboot_info m multiboot_addr (parsing_screen s0) = None \<longrightarrow>
      kernel_main m s0 magic multiboot_addr = None)"
  by (simp add: kernel_main_wrong_magic kernel_main_right_magic)

theorem kernel_main_magic_witness:
  "kernel_main (memory_of 0x10000 endless_block) test_terminal 0 0x10000
     = Some (fatal_halt_screen test_terminal) \<and>
   kernel_main (memory_of 0x10000 endless_block) test_terminal 0xFFFFFFFFFFFFFFFF 0x10000
     = Some (fatal_halt_screen test_terminal) \<and>
   kernel_main (memory_of 0x10000 endless_block) test_terminal 0x36d76289 0x10000 = None \<and>
   kernel_main (memory_of 0x10000 (boot_block 639 130048)) test_terminal 0x36d76289 0x10000
     = Some (ready_screen (fold terminal_putchar (map of_char
         ''Multiboot information at: 0x\<newline>  Command line: root=/dev/sda1\<newline>  Bootloader: GRUB 2.06\<newline>  Memory detected\<newline>'')
         (parsing_screen test_terminal)))"
proof -
  let ?bad = "memory_of 0x10000 endless_block"
  let ?good = "memory_of 0x10000 (boot_block 639 130048)"
  have "kernel_main ?bad test_terminal 0 0x10000 = Some (fatal_halt_screen test_terminal)"
    using kernel_main_magic [of ?bad test_terminal 0 "0x10000" ?bad "0x10000"] by simp
  moreover have "kernel_main ?bad test_terminal 0xFFFFFFFFFFFFFFFF 0x10000
      = Some (fatal_halt_screen test_terminal)"
    using kernel_main_magic [of ?bad test_terminal "0xFFFFFFFFFFFFFFFF" "0x10000" ?bad "0x10000"]
    by simp
  moreover have "kernel_main ?bad test_terminal 0x36d76289 0x10000 = None"
    using kernel_main_magic [of ?bad test_terminal "0x36d76289" "0x10000" ?bad "0x10000"]
    by (simp add: endless_block_parse)
  moreover have "kernel_main ?good test_terminal 0x36d76289 0x10000
     = Some (ready_screen (fold terminal_putchar (map of_char
         ''Multiboot information at: 0x\<newline>  Command line: root=/dev/sda1\<newline>  Bootloader: GRUB 2.06\<newline>  Memory detected\<newline>'')
         (parsing_screen test_terminal)))"
    using kernel_main_magic [of ?good test_terminal "0x36d76289" "0x10000" ?good "0x10000"]
    by (simp add: boot_block_parse)
  ultimately show ?thesis
    by blast
qed

subsection \<open>The parser's effect on the terminal\<close>

lemma empty_block_parse:
  "parse_multiboot_info (memory_of 0x10000 empty_block) 0x10000 s
     = Some (fold terminal_putchar (map of_char ''Multiboot information at: 0x\<newline>'') s)"
proof -
  have "tag_type (memory_of 0x10000 empty_block) 0x10008 = 0"
    by (simp add: field_defs block_bytes)
  then show ?thesis
    by (simp add: parse_multiboot_info_header parse_multiboot_loop_unfold)
qed

lemma header_row_on_test_terminal:
  "terminal_row (fold terminal_putchar (map of_char ''Multiboot information at: 0x\<newline>'')
      test_terminal) = 1"
  by (simp add: test_terminal_def terminal_putchar_def terminal_putentryat_def Let_def
      VGA_WIDTH_def VGA_HEIGHT_def vga_entry_def)

lemma header_cell_on_test_terminal:
  "terminal_buffer (fold terminal_putchar (map of_char ''Multiboot information at: 0x\<newline>'')
      test_terminal) 0 = 0x074D"
  by (simp add: test_terminal_def terminal_putchar_def terminal_putentryat_def Let_def
      VGA_WIDTH_def VGA_HEIGHT_def vga_entry_def)

text \<open>
  About C9. \<open>parse_multiboot_info\<close> returns nothing and writes to the terminal itself.
  On the block with the end tag only, the cell 0 of the buffer, 0 before, holds \<open>M\<close> in
  colour 7 afterwards, and the cursor row has gone from 0 to 1.
\<close>

theorem parse_writes_to_terminal:
  "terminal_row test_terminal = 0 \<and>
   terminal_buffer test_terminal 0 = 0 \<and>
   map_option terminal_row
     (parse_multiboot_info (memory_of 0x10000 empty_block) 0x10000 test_terminal) = Some 1 \<and>
   map_option (\<lambda>s. terminal_buffer s 0)
     (parse_multiboot_info (memory_of 0x10000 empty_block) 0x10000 test_terminal) = Some 0x074D"
  unfolding empty_block_parse option.map header_row_on_test_terminal header_cell_on_test_terminal
  by (simp add: test_terminal_def)

lemma boot_block_lengths:
  "terminal_writestring_len (tag_string (memory_of 0x10000 (boot_block ml mu)) 0x10008) 0 = Some 14"
  "terminal_writestring_len (tag_string (memory_of 0x10000 (boot_block ml mu)) 0x10020) 0 = Some 9"
  by (simp_all add: terminal_writestring_len_unfold tag_string_def memory_of_def boot_block_bytes)

lemma upt_expand:
  "[0..<2] = [0, 1 :: nat]"
  "[0..<9] = [0, 1, 2, 3, 4, 5, 6, 7, 8 :: nat]"
  "[0..<14] = [0, 1, 2, 3, 4, 5, 6, 7, 8, 9, 10, 11, 12, 13 :: nat]"
  by code_simp+

lemma boot_block_string_bytes:
  "map (\<lambda>k. tag_string (memory_of 0x10000 (boot_block ml mu)) 0x10008 (of_nat k)) [0..<14]
     = map of_char ''root=/dev/sda1''"
  "map (\<lambda>k. tag_string (memory_of 0x10000 (boot_block ml mu)) 0x10020 (of_nat k)) [0..<9]
     = map of_char ''GRUB 2.06''"
  unfolding upt_expand
  by (simp_all add: tag_string_def memory_of_def boot_block_bytes)

lemma boot_block_output:
  "tag_output (memory_of 0x10000 (boot_block ml mu)) 0x10008
     = Some (map of_char ''  Command line: root=/dev/sda1\<newline>'')"
  "tag_output (memory_of 0x10000 (boot_block ml mu)) 0x10020
     = Some (map of_char ''  Bootloader: GRUB 2.06\<newline>'')"
  "tag_output (memory_of 0x10000 (boot_block ml mu)) 0x10038
     = Some (map of_char ''  Memory detected\<newline>'')"
  by (simp_all add: tag_output_def boot_block_tags boot_block_lengths boot_block_string_bytes)

lemma short_size_block_tags:
  "tag_type (memory_of 0x10000 short_size_block) 0x10008 = 1"
  "next_tag (memory_of 0x10000 short_size_block) 0x10008 = 0x10010"
  "tag_type (memory_of 0x10000 short_size_block) 0x10010 = 0x6968"
  "next_tag (memory_of 0x10000 short_size_block) 0x10010 = 0x10018"
  "tag_type (memory_of 0x10000 short_size_block) 0x10018 = 0"
  by (simp_all add: field_defs block_bytes)

lemma short_size_block_output:
  "tag_output (memory_of 0x10000 short_size_block) 0x10008
     = Some (map of_char ''  Command line: hi\<newline>'')"
  "tag_output (memory_of 0x10000 short_size_block) 0x10010 = Some []"
proof -
  let ?m = "memory_of 0x10000 short_size_block"
  have len: "terminal_writestring_len (tag_string ?m 0x10008) 0 = Some 2"
    by (simp add: terminal_writestring_len_unfold tag_string_def memory_of_def block_bytes)
  have bytes: "map (\<lambda>k. tag_string ?m 0x10008 (of_nat k)) [0..<2] = map of_char ''hi''"
    unfolding upt_expand by (simp add: tag_string_def memory_of_def block_bytes)
  show "tag_output ?m 0x10008 = Some (map of_char ''  Command line: hi\<newline>'')"
    by (simp add: tag_output_def short_size_block_tags len bytes)
  show "tag_output ?m 0x10010 = Some []"
    by (simp add: tag_output_def short_size_block_tags)
qed

text \<open>
  C9, as the code has it: \<open>parse_multiboot_info\<close> reads the block, returns no records
  and does its output itself, with \<open>terminal_putchar\<close> on the terminal. For each tag the
  \<open>switch\<close> writes exactly the bytes of \<open>tag_output\<close>: for a tag of type 1 or 2 whose
  string has its first zero byte at offset \<open>j\<close>, the label, those \<open>j\<close> bytes and a
  newline. When the end tag is the tag
  number \<open>n\<close> of the walk, the call writes the line \<open>Multiboot information at: 0x\<close> and
  then the lines of those \<open>n\<close> tags in order, and returns exactly when every string among
  them has a zero byte. The colour of the terminal is never changed.
\<close>

theorem parse_multiboot_info_output:
  "parse_multiboot_switch m tag s
     = map_option (\<lambda>bs. fold terminal_putchar bs s) (tag_output m tag) \<and>
   ((tag_type m tag = 1 \<or> tag_type m tag = 2) \<and> j < 2 ^ 64 \<and>
      (\<forall>k<j. m (tag + 8 + of_nat k) \<noteq> 0) \<and> m (tag + 8 + of_nat j) = 0 \<longrightarrow>
      tag_output m tag
        = Some (map of_char
                  (if tag_type m tag = 1 then ''  Command line: '' else ''  Bootloader: '')
             @ map (\<lambda>k. m (tag + 8 + of_nat k)) [0..<j] @ [10])) \<and>
   ((\<forall>k<n. tag_type m ((next_tag m ^^ k) (multiboot_addr + 8)) \<noteq> 0) \<and>
      tag_type m ((next_tag m ^^ n) (multiboot_addr + 8)) = 0 \<longrightarrow>
      parse_multiboot_info m multiboot_addr s
        = map_option
            (\<lambda>bs. fold terminal_putchar
               (map of_char ''Multiboot information at: 0x\<newline>'' @ bs) s)
            (walk_output m (multiboot_addr + 8) n)) \<and>
   (\<forall>s'. parse_multiboot_info m multiboot_addr s = Some s' \<longrightarrow>
      terminal_color s' = terminal_color s)"
proof (intro conjI allI impI)
  show "parse_multiboot_switch m tag s
     = map_option (\<lambda>bs. fold terminal_putchar bs s) (tag_output m tag)"
    by (rule parse_multiboot_switch_output)
next
  assume "(tag_type m tag = 1 \<or> tag_type m tag = 2) \<and> j < 2 ^ 64 \<and>
      (\<forall>k<j. m (tag + 8 + of_nat k) \<noteq> 0) \<and> m (tag + 8 + of_nat j) = 0"
  then show "tag_output m tag
        = Some (map of_char
                  (if tag_type m tag = 1 then ''  Command line: '' else ''  Bootloader: '')
             @ map (\<lambda>k. m (tag + 8 + of_nat k)) [0..<j] @ [10])"
    by (intro tag_output_string) simp_all
next
  let ?h = "map of_char ''Multiboot information at: 0x\<newline>''"
  assume walk: "(\<forall>k<n. tag_type m ((next_tag m ^^ k) (multiboot_addr + 8)) \<noteq> 0) \<and>
      tag_type m ((next_tag m ^^ n) (multiboot_addr + 8)) = 0"
  have "parse_multiboot_info m multiboot_addr s
      = parse_multiboot_loop m (multiboot_addr + 8) (fold terminal_putchar ?h s)"
    by (rule parse_multiboot_info_header)
  also have "\<dots> = map_option (\<lambda>bs. fold terminal_putchar bs (fold terminal_putchar ?h s))
      (walk_output m (multiboot_addr + 8) n)"
    using walk by (intro parse_multiboot_loop_output) simp_all
  also have "\<dots> = map_option (\<lambda>bs. fold terminal_putchar (?h @ bs) s)
      (walk_output m (multiboot_addr + 8) n)"
    by (simp only: fold_append o_apply)
  finally show "parse_multiboot_info m multiboot_addr s
      = map_option (\<lambda>bs. fold terminal_putchar (?h @ bs) s)
          (walk_output m (multiboot_addr + 8) n)" .
next
  fix s'
  assume "parse_multiboot_info m multiboot_addr s = Some s'"
  then have "terminal_color s'
      = terminal_color (fold terminal_putchar (map of_char ''Multiboot information at: 0x\<newline>'') s)"
    unfolding parse_multiboot_info_header by (rule terminal_color_loop)
  then show "terminal_color s' = terminal_color s"
    by (simp only: terminal_color_fold_putchar)
qed

theorem parse_multiboot_info_output_witness:
  "parse_multiboot_info (memory_of 0x10000 (boot_block 639 130048)) 0x10000 test_terminal
     = Some (fold terminal_putchar (map of_char
         ''Multiboot information at: 0x\<newline>  Command line: root=/dev/sda1\<newline>  Bootloader: GRUB 2.06\<newline>  Memory detected\<newline>'')
         test_terminal) \<and>
   parse_multiboot_info (memory_of 0x10000 short_size_block) 0x10000 test_terminal
     = Some (fold terminal_putchar (map of_char
         ''Multiboot information at: 0x\<newline>  Command line: hi\<newline>'') test_terminal) \<and>
   tag_output (memory_of 0x10000 short_size_block) 0x10008
     = Some (map of_char ''  Command line: hi\<newline>'') \<and>
   tag_type (memory_of 0x10000 short_size_block) 0x10010 = 0x6968 \<and>
   parse_multiboot_switch (memory_of 0x10000 short_size_block) 0x10010 test_terminal
     = Some test_terminal \<and>
   terminal_color (fold terminal_putchar (map of_char
         ''Multiboot information at: 0x\<newline>  Command line: hi\<newline>'') test_terminal) = 7"
proof -
  let ?b = "memory_of 0x10000 (boot_block 639 130048)"
  let ?m = "memory_of 0x10000 short_size_block"
  let ?t = "fold terminal_putchar (map of_char
         ''Multiboot information at: 0x\<newline>  Command line: hi\<newline>'') test_terminal"
  have b: "parse_multiboot_info ?b 0x10000 test_terminal
     = Some (fold terminal_putchar (map of_char
         ''Multiboot information at: 0x\<newline>  Command line: root=/dev/sda1\<newline>  Bootloader: GRUB 2.06\<newline>  Memory detected\<newline>'')
         test_terminal)"
    using parse_multiboot_info_output [where m = ?b and s = test_terminal
        and n = "Suc (Suc (Suc 0))" and multiboot_addr = "0x10000",
        THEN conjunct2, THEN conjunct2, THEN conjunct1]
    by (simp add: All_less_Suc boot_block_tags boot_block_output)
  note short = parse_multiboot_info_output [where m = ?m and s = test_terminal
      and n = "Suc (Suc 0)" and multiboot_addr = "0x10000"]
  have p: "parse_multiboot_info ?m 0x10000 test_terminal = Some ?t"
    using short [THEN conjunct2, THEN conjunct2, THEN conjunct1]
    by (simp add: All_less_Suc short_size_block_tags short_size_block_output)
  have ty: "tag_type ?m 0x10008 = 1"
    by (rule short_size_block_tags)
  have nz: "\<forall>k<Suc (Suc 0). ?m (0x10008 + 8 + of_nat k) \<noteq> 0"
    by (simp add: All_less_Suc memory_of_def block_bytes)
  have z: "?m (0x10008 + 8 + of_nat (Suc (Suc 0))) = 0"
    by (simp add: memory_of_def block_bytes)
  have bytes: "map (\<lambda>k. ?m (0x10008 + 8 + of_nat k)) [0..<Suc (Suc 0)] = map of_char ''hi''"
    by (simp add: memory_of_def block_bytes)
  have "tag_output ?m 0x10008
      = Some (map of_char (if tag_type ?m 0x10008 = 1 then ''  Command line: '' else ''  Bootloader: '')
           @ map (\<lambda>k. ?m (0x10008 + 8 + of_nat k)) [0..<Suc (Suc 0)] @ [10])"
    using ty nz z
    by (intro short [where tag = "0x10008" and j = "Suc (Suc 0)",
          THEN conjunct2, THEN conjunct1, THEN mp]) simp
  then have o: "tag_output ?m 0x10008 = Some (map of_char ''  Command line: hi\<newline>'')"
    unfolding ty bytes by simp
  have "parse_multiboot_switch ?m 0x10010 test_terminal = Some test_terminal"
    using short [where tag = "0x10010", THEN conjunct1] by (simp add: short_size_block_output)
  moreover have "terminal_color ?t = terminal_color test_terminal"
    using short [THEN conjunct2, THEN conjunct2, THEN conjunct2, rule_format, OF p] .
  then have "terminal_color ?t = 7"
    by (simp only: test_terminal_def terminal.simps)
  ultimately show ?thesis
    using b p o by (simp only: short_size_block_tags simp_thms)
qed

end
